theory Spec2Isabelle
  imports Complex_Main
begin

section \<open>The per-agent decision model of simulator/customer\_unimaus.py\<close>

text \<open>
  The module defines three classes: \<open>UniMausCustomer\<close> and its two specialisations
  \<open>UniMausGenuineCustomer\<close> and \<open>UniMausFraudulentCustomer\<close>. An agent object
  becomes a record, every method a function that takes the agent (and the shared random
  generator, the parameter tables and the transaction model) and returns what the method
  returns together with the objects it has changed. A Python exception is the left
  summand of a sum type.

  Python floats are idealised as \<^typ>\<open>real\<close>: rounding, infinities and NaN are not
  part of this development.
\<close>

subsection \<open>Exceptions\<close>

datatype py_error = ValueError | IndexError | KeyError | AttributeError

subsection \<open>The shared random generator\<close>

text \<open>
  \<open>self.random_state\<close> is a numpy \<open>RandomState\<close>. Its bit stream is abstracted to
  a tape of variates and the number of variates consumed so far. What a variate stands for
  is fixed by the call that consumes it: a sample of the unit interval for
  \<open>uniform\<close> and for the weighted \<open>choice\<close>, a standard normal sample for
  \<open>normal\<close> and \<open>multivariate_normal\<close>, a raw integer for the unweighted
  \<open>choice\<close>.
\<close>

record random_state =
  tape :: "nat \<Rightarrow> real"
  pos :: nat

definition random_sample :: "random_state \<Rightarrow> real \<times> random_state" where
  "random_sample rs = (tape rs (pos rs), rs\<lparr>pos := Suc (pos rs)\<rparr>)"

text \<open>\<open>random_state.uniform(low, high, 1)[0]\<close>\<close>

definition uniform :: "real \<Rightarrow> real \<Rightarrow> random_state \<Rightarrow> real \<times> random_state" where
  "uniform low high rs =
     (case random_sample rs of (u, rs') \<Rightarrow> (low + (high - low) * u, rs'))"

text \<open>
  \<open>random_state.normal(loc, scale, 1)[0]\<close>: numpy rejects a negative scale with
  ValueError, and otherwise shifts and scales one standard normal variate.
\<close>

definition normal :: "real \<Rightarrow> real \<Rightarrow> random_state \<Rightarrow> py_error + real \<times> random_state" where
  "normal loc scale rs =
     (if scale < 0 then Inl ValueError
      else case random_sample rs of (z, rs') \<Rightarrow> Inr (loc + scale * z, rs'))"

text \<open>
  The covariance matrices of this module are all multiples of \<open>np.eye(n)\<close>; a
  diagonal matrix is represented by its diagonal.
\<close>

definition eye :: "nat \<Rightarrow> real list" where
  "eye n = replicate n 1"

definition standard_normals :: "nat \<Rightarrow> random_state \<Rightarrow> real list \<times> random_state" where
  "standard_normals n rs = (map (tape rs) [pos rs ..< pos rs + n], rs\<lparr>pos := pos rs + n\<rparr>)"

text \<open>
  \<open>random_state.multivariate_normal(mean, cov, 1)[0]\<close> for a diagonal \<open>cov\<close>:
  ValueError when mean and covariance differ in size; otherwise entry \<open>i\<close> of the sample
  is the mean plus the square root of the \<open>i\<close>-th singular value of \<open>cov\<close> times a
  standard normal variate.
\<close>

definition multivariate_normal ::
  "real list \<Rightarrow> real list \<Rightarrow> random_state \<Rightarrow> py_error + real list \<times> random_state" where
  "multivariate_normal mean cov rs =
     (if length mean \<noteq> length cov then Inl ValueError
      else case standard_normals (length mean) rs of
             (zs, rs') \<Rightarrow> Inr (map (\<lambda>(m, c, z). m + sqrt \<bar>c\<bar> * z) (zip mean (zip cov zs)), rs'))"

text \<open>\<open>arr[arr < 0] = 0\<close>\<close>

definition clamp_negative :: "real list \<Rightarrow> real list" where
  "clamp_negative arr = map (\<lambda>x. if x < 0 then 0 else x) arr"

text \<open>\<open>p.cumsum()\<close>\<close>

fun cumsum_from :: "real \<Rightarrow> real list \<Rightarrow> real list" where
  "cumsum_from acc [] = []"
| "cumsum_from acc (x # xs) = (acc + x) # cumsum_from (acc + x) xs"

definition cumsum :: "real list \<Rightarrow> real list" where
  "cumsum p = cumsum_from 0 p"

text \<open>
  \<open>cdf.searchsorted(u, side='right')\<close> on a non-decreasing array: the index of the
  first entry greater than \<open>u\<close>.
\<close>

definition searchsorted_right :: "real list \<Rightarrow> real \<Rightarrow> nat" where
  "searchsorted_right cdf u = length (takeWhile (\<lambda>c. c \<le> u) cdf)"

text \<open>
  \<open>random_state.choice(a, p=p)\<close>: numpy validates the arguments (ValueError for an
  empty population, for sizes that differ, for a negative probability and for
  probabilities that do not sum to one), then inverts the normalised cumulative
  distribution at one sample of the unit interval.
\<close>

definition choice_p :: "'a list \<Rightarrow> real list \<Rightarrow> random_state \<Rightarrow> py_error + 'a \<times> random_state" where
  "choice_p a p rs =
     (if a = [] then Inl ValueError
      else if length p \<noteq> length a then Inl ValueError
      else if \<exists>x \<in> set p. x < 0 then Inl ValueError
      else if sum_list p \<noteq> 1 then Inl ValueError
      else case random_sample rs of
             (u, rs') \<Rightarrow>
               (let cdf = map (\<lambda>c. c / last (cumsum p)) (cumsum p);
                    idx = searchsorted_right cdf u
                in if idx < length a then Inr (a ! idx, rs') else Inl IndexError))"

text \<open>
  \<open>random_state.choice(a)\<close>: ValueError for an empty population, otherwise
  \<open>a[randint(0, len(a))]\<close>. Of \<open>randint\<close> only its contract is kept: some index
  below \<open>len(a)\<close>, here the raw variate reduced to that range.
\<close>

definition choice :: "'a list \<Rightarrow> random_state \<Rightarrow> py_error + 'a \<times> random_state" where
  "choice a rs =
     (if a = [] then Inl ValueError
      else case random_sample rs of
             (v, rs') \<Rightarrow> Inr (a ! nat (\<lfloor>v\<rfloor> mod int (length a)), rs'))"

text \<open>Indexing a numpy array with a Python int: a negative index counts from the end.\<close>

definition getitem :: "'a list \<Rightarrow> int \<Rightarrow> py_error + 'a" where
  "getitem xs i =
     (if 0 \<le> i \<and> i < int (length xs) then Inr (xs ! nat i)
      else if i < 0 \<and> - int (length xs) \<le> i then Inr (xs ! nat (int (length xs) + i))
      else Inl IndexError)"

subsection \<open>Data model\<close>

text \<open>
  What the module reads of a \<open>datetime\<close>: the attributes \<open>month\<close>, \<open>day\<close>,
  \<open>hour\<close> and the value of the method \<open>weekday()\<close>.
\<close>

record datetime =
  month :: int
  day :: int
  hour :: int
  weekday :: int

record merchant =
  m_unique_id :: nat

text \<open>
  The attributes of an agent object: those set by \<open>AbstractCustomer\<close>, the ones
  \<open>UniMausCustomer.__init__\<close> adds, and \<open>card_corrupted\<close> of the genuine customer.
\<close>

record customer =
  unique_id :: nat
  fraudster :: bool
  country :: string
  currency :: string
  card_id :: nat
  stay :: bool
  num_transactions :: nat
  curr_merchant :: "merchant option"
  curr_amount :: "real option"
  noise_level :: real
  avg_trans_per_hour :: real
  trans_prob_month :: "real list"
  trans_prob_monthday :: "real list"
  trans_prob_weekday :: "real list"
  trans_prob_hour :: "real list"
  card_corrupted :: bool

text \<open>
  \<open>self.params\<close>, one field per key the module reads (prefixed with \<open>p_\<close>). A table
  indexed by \<open>self.fraudster\<close> is a function of the flag. \<open>country_frac\<close> holds a row
  (country, genuine fraction, fraud fraction) per country, \<open>currency_per_country\<close> an
  entry per (country, currency) pair, \<open>merchant_per_currency\<close> a row of
  (merchant id, probability) per currency.
\<close>

record params =
  p_noise_level :: real
  p_trans_per_year :: "bool \<Rightarrow> real"
  p_transaction_motivation :: "bool \<Rightarrow> real"
  p_frac_month :: "bool \<Rightarrow> real list"
  p_frac_monthday :: "bool \<Rightarrow> real list"
  p_frac_weekday :: "bool \<Rightarrow> real list"
  p_frac_hour :: "bool \<Rightarrow> real list"
  p_merchant_per_currency :: "bool \<Rightarrow> string \<Rightarrow> (nat \<times> real) list option"
  p_stay_prob :: "bool \<Rightarrow> real"
  p_stay_after_fraud :: real
  p_fraud_cards_in_genuine :: real
  p_country_frac :: "(string \<times> real \<times> real) list"
  p_currency_per_country :: "bool \<Rightarrow> ((string \<times> string) \<times> real) list"

text \<open>\<open>self.model\<close>, as far as the module reads it.\<close>

record transaction_model =
  curr_global_date :: datetime
  customers :: "customer list"
  merchants :: "merchant list"

subsection \<open>UniMausCustomer\<close>

text \<open>
  \<open>initialise_transaction_probabilities\<close>: four draws, in the order month, day of
  month, weekday, hour, each followed by the clamp.
\<close>

definition initialise_transaction_probabilities ::
  "params \<Rightarrow> customer \<Rightarrow> random_state \<Rightarrow>
     py_error + (real list \<times> real list \<times> real list \<times> real list) \<times> random_state" where
  "initialise_transaction_probabilities P self rs =
     (case multivariate_normal (p_frac_month P (fraudster self))
             (map (\<lambda>d. d * noise_level self / 1200) (eye 12)) rs of
        Inl e \<Rightarrow> Inl e
      | Inr (m, rs1) \<Rightarrow>
     (case multivariate_normal (p_frac_monthday P (fraudster self))
             (map (\<lambda>d. d * noise_level self / 305) (eye 31)) rs1 of
        Inl e \<Rightarrow> Inl e
      | Inr (md, rs2) \<Rightarrow>
     (case multivariate_normal (p_frac_weekday P (fraudster self))
             (map (\<lambda>d. d * noise_level self / 70) (eye 7)) rs2 of
        Inl e \<Rightarrow> Inl e
      | Inr (wd, rs3) \<Rightarrow>
     (case multivariate_normal (p_frac_hour P (fraudster self))
             (map (\<lambda>d. d * noise_level self / 240) (eye 24)) rs3 of
        Inl e \<Rightarrow> Inl e
      | Inr (h, rs4) \<Rightarrow>
          Inr ((clamp_negative m, clamp_negative md, clamp_negative wd, clamp_negative h),
               rs4)))))"

text \<open>
  The body of \<open>__init__\<close> after the call of the base-class constructor (which is not
  part of this module): \<open>self\<close> is the agent as \<open>AbstractCustomer.__init__\<close> left it.
\<close>

definition UniMausCustomer_init ::
  "params \<Rightarrow> customer \<Rightarrow> random_state \<Rightarrow> py_error + customer \<times> random_state" where
  "UniMausCustomer_init P self rs =
     (let self1 = self\<lparr>noise_level := p_noise_level P\<rparr>;
          trans_per_year = p_trans_per_year P (fraudster self1)
      in case normal 0 (noise_level self1 * trans_per_year) rs of
           Inl e \<Rightarrow> Inl e
         | Inr (rand_addition, rs1) \<Rightarrow>
             (let trans_per_year' =
                    (if trans_per_year + rand_addition > 0 then trans_per_year + rand_addition
                     else trans_per_year);
                  self2 = self1\<lparr>avg_trans_per_hour := trans_per_year' / 366 / 24\<rparr>;
                  self3 = self2\<lparr>avg_trans_per_hour :=
                            avg_trans_per_hour self2 * p_transaction_motivation P (fraudster self2)\<rparr>
              in case initialise_transaction_probabilities P self3 rs1 of
                   Inl e \<Rightarrow> Inl e
                 | Inr ((m, md, wd, h), rs2) \<Rightarrow>
                     Inr (self3\<lparr>trans_prob_month := m, trans_prob_monthday := md,
                                trans_prob_weekday := wd, trans_prob_hour := h\<rparr>, rs2)))"

text \<open>
  \<open>get_local_datetime\<close>: the conversion from US/Pacific to the first time zone of the
  agent's country is pytz's; it is the parameter \<open>astimezone\<close>.
\<close>

definition get_local_datetime ::
  "(datetime \<Rightarrow> string \<Rightarrow> datetime) \<Rightarrow> transaction_model \<Rightarrow> customer \<Rightarrow> datetime" where
  "get_local_datetime astimezone M self = astimezone (curr_global_date M) (country self)"

definition get_curr_transaction_prob ::
  "(datetime \<Rightarrow> string \<Rightarrow> datetime) \<Rightarrow> transaction_model \<Rightarrow> customer \<Rightarrow> py_error + real" where
  "get_curr_transaction_prob astimezone M self =
     (let local_datetime = get_local_datetime astimezone M self;
          trans_prob = avg_trans_per_hour self
      in case getitem (trans_prob_month self) (month local_datetime - 1) of
           Inl e \<Rightarrow> Inl e
         | Inr pm \<Rightarrow>
      (let trans_prob = trans_prob * (12 * pm)
       in case getitem (trans_prob_hour self) (hour local_datetime) of
           Inl e \<Rightarrow> Inl e
         | Inr ph \<Rightarrow>
      (let trans_prob = trans_prob * (24 * ph)
       in case getitem (trans_prob_monthday self) (day local_datetime - 1) of
           Inl e \<Rightarrow> Inl e
         | Inr pd \<Rightarrow>
      (let trans_prob = trans_prob * (30.5 * pd)
       in case getitem (trans_prob_weekday self) (weekday local_datetime) of
           Inl e \<Rightarrow> Inl e
         | Inr pw \<Rightarrow> Inr (trans_prob * (7 * pw))))))"

definition decide_making_transaction ::
  "(datetime \<Rightarrow> string \<Rightarrow> datetime) \<Rightarrow> transaction_model \<Rightarrow> customer \<Rightarrow> random_state \<Rightarrow>
     py_error + bool \<times> random_state" where
  "decide_making_transaction astimezone M self rs =
     (case get_curr_transaction_prob astimezone M self of
        Inl e \<Rightarrow> Inl e
      | Inr trans_prob \<Rightarrow>
          (case uniform 0 1 rs of
             (u, rs') \<Rightarrow> (let make_transaction = trans_prob > u in Inr (make_transaction, rs'))))"

text \<open>
  \<open>pick_curr_merchant\<close>: \<open>.loc\<close> raises KeyError for a currency without a row, and
  \<open>[...][0]\<close> raises IndexError when the comprehension is empty. The generator is
  returned in both cases, since the draw precedes the lookup.
\<close>

definition pick_curr_merchant ::
  "params \<Rightarrow> transaction_model \<Rightarrow> customer \<Rightarrow> random_state \<Rightarrow>
     (py_error + merchant) \<times> random_state" where
  "pick_curr_merchant P M self rs =
     (case p_merchant_per_currency P (fraudster self) (currency self) of
        None \<Rightarrow> (Inl KeyError, rs)
      | Some merchant_prob \<Rightarrow>
          (case choice_p (map fst merchant_prob) (map snd merchant_prob) rs of
             Inl e \<Rightarrow> (Inl e, rs)
           | Inr (merchant_ID, rs') \<Rightarrow>
               (case filter (\<lambda>m. m_unique_id m = merchant_ID) (merchants M) of
                  [] \<Rightarrow> (Inl IndexError, rs')
                | m # _ \<Rightarrow> (Inr m, rs'))))"

text \<open>
  \<open>pick_curr_amount\<close>: the amount is the merchant's business. \<open>get_amount\<close> is a
  parameter; it receives the agent and the generator and may change both.
\<close>

definition pick_curr_amount ::
  "(merchant \<Rightarrow> customer \<Rightarrow> random_state \<Rightarrow> real \<times> customer \<times> random_state) \<Rightarrow>
     customer \<Rightarrow> random_state \<Rightarrow> (py_error + real) \<times> customer \<times> random_state" where
  "pick_curr_amount get_amount self rs =
     (case curr_merchant self of
        None \<Rightarrow> (Inl AttributeError, self, rs)
      | Some m \<Rightarrow> (case get_amount m self rs of (amount, self', rs') \<Rightarrow> (Inr amount, self', rs')))"

definition perform_transaction ::
  "(merchant \<Rightarrow> customer \<Rightarrow> random_state \<Rightarrow> real \<times> customer \<times> random_state) \<Rightarrow>
     params \<Rightarrow> transaction_model \<Rightarrow> customer \<Rightarrow> random_state \<Rightarrow>
     (py_error + unit) \<times> customer \<times> random_state" where
  "perform_transaction get_amount P M self rs =
     (case pick_curr_merchant P M self rs of
        (Inl e, rs1) \<Rightarrow> (Inl e, self, rs1)
      | (Inr m, rs1) \<Rightarrow>
          (let self1 = self\<lparr>curr_merchant := Some m\<rparr>
           in case pick_curr_amount get_amount self1 rs1 of
                (Inl e, self2, rs2) \<Rightarrow> (Inl e, self2, rs2)
              | (Inr amount, self2, rs2) \<Rightarrow> (Inr (), self2\<lparr>curr_amount := Some amount\<rparr>, rs2)))"

definition decide_staying :: "params \<Rightarrow> customer \<Rightarrow> random_state \<Rightarrow> customer \<times> random_state" where
  "decide_staying P self rs =
     (case uniform 0 1 rs of
        (u, rs') \<Rightarrow>
          (let leave = (1 - p_stay_prob P (fraudster self)) > u
           in if leave then (self\<lparr>stay := False\<rparr>, rs') else (self, rs')))"

text \<open>
  The base \<open>initialise_card_id\<close> asks the model for the next card id;
  \<open>get_next_card_id\<close> belongs to the model and is a parameter.
\<close>

definition initialise_card_id ::
  "(transaction_model \<Rightarrow> nat \<times> transaction_model) \<Rightarrow> transaction_model \<Rightarrow>
     nat \<times> transaction_model" where
  "initialise_card_id get_next_card_id M = get_next_card_id M"

subsection \<open>UniMausGenuineCustomer\<close>

definition card_got_corrupted :: "customer \<Rightarrow> customer" where
  "card_got_corrupted self = self\<lparr>card_corrupted := True\<rparr>"

definition genuine_decide_making_transaction ::
  "(datetime \<Rightarrow> string \<Rightarrow> datetime) \<Rightarrow> params \<Rightarrow> transaction_model \<Rightarrow> customer \<Rightarrow>
     random_state \<Rightarrow> py_error + bool \<times> customer \<times> random_state" where
  "genuine_decide_making_transaction astimezone P M self rs =
     (case decide_making_transaction astimezone M self rs of
        Inl e \<Rightarrow> Inl e
      | Inr (do_trans, rs1) \<Rightarrow>
          (case uniform 0 1 rs1 of
             (u, rs2) \<Rightarrow>
               (let leave_after_fraud = (1 - p_stay_after_fraud P) > u
                in if do_trans \<and> card_corrupted self \<and> leave_after_fraud
                   then Inr (False, self\<lparr>stay := False\<rparr>, rs2)
                   else Inr (do_trans, self, rs2))))"

subsection \<open>UniMausFraudulentCustomer\<close>

text \<open>
  \<open>initialise_card_id\<close> of the fraudster. Its three local lists and the condition of
  its list comprehension are named as in the source.
\<close>

definition fraudster_countries :: "params \<Rightarrow> string list" where
  "fraudster_countries P = map fst (filter (\<lambda>(c, gen, fraud). fraud \<noteq> 0) (p_country_frac P))"

definition fraudster_currencies :: "params \<Rightarrow> string list" where
  "fraudster_currencies P =
     remdups (map (\<lambda>((c, cur), p). cur) (p_currency_per_country P True))"

definition customers_active_ids :: "transaction_model \<Rightarrow> nat list" where
  "customers_active_ids M =
     map unique_id (filter (\<lambda>c. num_transactions c > 0) (customers M))"

definition fraud_target :: "params \<Rightarrow> transaction_model \<Rightarrow> customer \<Rightarrow> bool" where
  "fraud_target P M c \<longleftrightarrow>
     country c \<in> set (fraudster_countries P) \<and>
     currency c \<in> set (fraudster_currencies P) \<and>
     unique_id c \<in> set (customers_active_ids M)"

text \<open>
  The \<open>try\<close> block catches ValueError only. The result is the card, the agent (whose
  country and currency the method may overwrite), the model (which the fallback's
  \<open>get_next_card_id\<close> may change) and the generator.
\<close>

definition fraud_initialise_card_id ::
  "(transaction_model \<Rightarrow> nat \<times> transaction_model) \<Rightarrow> params \<Rightarrow> transaction_model \<Rightarrow>
     customer \<Rightarrow> random_state \<Rightarrow>
     py_error + nat \<times> customer \<times> transaction_model \<times> random_state" where
  "fraud_initialise_card_id get_next_card_id P M self rs =
     (case uniform 0 1 rs of
        (u, rs1) \<Rightarrow>
          if p_fraud_cards_in_genuine P > u then
            (case choice (filter (fraud_target P M) (customers M)) rs1 of
               Inr (customer, rs2) \<Rightarrow>
                 Inr (card_id customer,
                      self\<lparr>country := country customer, currency := currency customer\<rparr>,
                      M, rs2)
             | Inl e \<Rightarrow>
                 if e = ValueError
                 then (case initialise_card_id get_next_card_id M of
                         (card', M') \<Rightarrow> Inr (card', self, M', rs1))
                 else Inl e)
          else (case initialise_card_id get_next_card_id M of
                  (card', M') \<Rightarrow> Inr (card', self, M', rs1)))"

section \<open>Example inputs\<close>

text \<open>
  A parameter table with uniform mean curves, one agent, a generator whose tape is
  constant, and a model with one merchant: the concrete inputs at which the theorems
  below are instantiated.
\<close>

definition const_rs :: "real \<Rightarrow> random_state" where
  "const_rs v = \<lparr>tape = (\<lambda>_. v), pos = 0\<rparr>"

definition ex_params :: params where
  "ex_params =
     \<lparr>p_noise_level = 1,
      p_trans_per_year = (\<lambda>_. 1),
      p_transaction_motivation = (\<lambda>_. 1),
      p_frac_month = (\<lambda>_. replicate 12 (1 / 12)),
      p_frac_monthday = (\<lambda>_. replicate 31 (1 / 31)),
      p_frac_weekday = (\<lambda>_. replicate 7 (1 / 7)),
      p_frac_hour = (\<lambda>_. replicate 24 (1 / 24)),
      p_merchant_per_currency =
        (\<lambda>_ cur. if cur = ''EUR'' then Some [(0, 0), (1, 1), (2, 0)] else None),
      p_stay_prob = (\<lambda>_. 9 / 10),
      p_stay_after_fraud = 0,
      p_fraud_cards_in_genuine = 1 / 2,
      p_country_frac = [(''US'', 1 / 2, 1 / 2), (''DE'', 1 / 2, 0)],
      p_currency_per_country = (\<lambda>_. [((''US'', ''USD''), 1), ((''DE'', ''EUR''), 1)])\<rparr>"

definition ex_customer :: customer where
  "ex_customer =
     \<lparr>unique_id = 0, fraudster = False, country = ''DE'', currency = ''EUR'', card_id = 7,
      stay = True, num_transactions = 0, curr_merchant = None, curr_amount = None,
      noise_level = 0, avg_trans_per_hour = 1,
      trans_prob_month = replicate 12 (1 / 12),
      trans_prob_monthday = replicate 31 (1 / 31),
      trans_prob_weekday = replicate 7 (1 / 7),
      trans_prob_hour = replicate 24 (1 / 24),
      card_corrupted = False\<rparr>"

definition new_year :: datetime where
  "new_year = \<lparr>month = 1, day = 1, hour = 0, weekday = 0\<rparr>"

definition ex_astimezone :: "datetime \<Rightarrow> string \<Rightarrow> datetime" where
  "ex_astimezone d c = d"

definition ex_model :: transaction_model where
  "ex_model = \<lparr>curr_global_date = new_year, customers = [ex_customer],
                merchants = [\<lparr>m_unique_id = 1\<rparr>]\<rparr>"


definition noisy_customer :: customer where
  "noisy_customer = ex_customer\<lparr>noise_level := 1220\<rparr>"

definition idle_customer :: customer where
  "idle_customer =
     ex_customer\<lparr>trans_prob_month := replicate 12 0, trans_prob_monthday := replicate 31 0,
                 trans_prob_weekday := replicate 7 0, trans_prob_hour := replicate 24 0\<rparr>"

definition corrupted_customer :: customer where
  "corrupted_customer = ex_customer\<lparr>card_corrupted := True\<rparr>"

definition ex_get_next_card_id :: "transaction_model \<Rightarrow> nat \<times> transaction_model" where
  "ex_get_next_card_id M = (1000, M)"

definition ex_get_amount ::
  "merchant \<Rightarrow> customer \<Rightarrow> random_state \<Rightarrow> real \<times> customer \<times> random_state" where
  "ex_get_amount m c rs = (10, c, rs)"

definition ex_fraudster :: customer where
  "ex_fraudster = ex_customer\<lparr>unique_id := 1, fraudster := True\<rparr>"

definition active_fraudster :: customer where
  "active_fraudster =
     ex_customer\<lparr>unique_id := 5, fraudster := True, country := ''US'', currency := ''USD'',
                 card_id := 99, num_transactions := 3\<rparr>"

definition fraud_model :: transaction_model where
  "fraud_model = ex_model\<lparr>customers := [active_fraudster]\<rparr>"

definition active_genuine :: customer where
  "active_genuine =
     ex_customer\<lparr>unique_id := 6, country := ''US'', currency := ''USD'',
                 card_id := 42, num_transactions := 2\<rparr>"

definition genuine_model :: transaction_model where
  "genuine_model = ex_model\<lparr>customers := [ex_customer, active_genuine]\<rparr>"

definition unlisted_model :: transaction_model where
  "unlisted_model = ex_model\<lparr>merchants := [\<lparr>m_unique_id = 2\<rparr>]\<rparr>"

definition curveless_customer :: customer where
  "curveless_customer = ex_customer\<lparr>trans_prob_month := []\<rparr>"

definition departed_customer :: customer where
  "departed_customer = ex_customer\<lparr>stay := False\<rparr>"




section \<open>The specification's reading of the constructor\<close>

text \<open>
  The specification's wording of the rate perturbation: the noise addition is rejected,
  and the unperturbed value kept, if it would drive the rate negative.
\<close>

definition spec_perturbed_rate :: "real \<Rightarrow> real \<Rightarrow> real" where
  "spec_perturbed_rate b a = (if b + a < 0 then b else b + a)"


text \<open>
  The specification's wording of the curve initialisation: for each dimension an
  isotropic covariance of \<open>noise_level / (100 * dimension_size)\<close>, then the clamp.
\<close>

definition spec_covariance :: "real \<Rightarrow> nat \<Rightarrow> real list" where
  "spec_covariance noise dimension_size =
     map (\<lambda>d. d * noise / (100 * real dimension_size)) (eye dimension_size)"

definition spec_initialise_transaction_probabilities ::
  "params \<Rightarrow> customer \<Rightarrow> random_state \<Rightarrow>
     py_error + (real list \<times> real list \<times> real list \<times> real list) \<times> random_state" where
  "spec_initialise_transaction_probabilities P self rs =
     (case multivariate_normal (p_frac_month P (fraudster self))
             (spec_covariance (noise_level self) 12) rs of
        Inl e \<Rightarrow> Inl e
      | Inr (m, rs1) \<Rightarrow>
     (case multivariate_normal (p_frac_monthday P (fraudster self))
             (spec_covariance (noise_level self) 31) rs1 of
        Inl e \<Rightarrow> Inl e
      | Inr (md, rs2) \<Rightarrow>
     (case multivariate_normal (p_frac_weekday P (fraudster self))
             (spec_covariance (noise_level self) 7) rs2 of
        Inl e \<Rightarrow> Inl e
      | Inr (wd, rs3) \<Rightarrow>
     (case multivariate_normal (p_frac_hour P (fraudster self))
             (spec_covariance (noise_level self) 24) rs3 of
        Inl e \<Rightarrow> Inl e
      | Inr (h, rs4) \<Rightarrow>
          Inr ((clamp_negative m, clamp_negative md, clamp_negative wd, clamp_negative h),
               rs4)))))"

text \<open>The day-of-month curve of a result, the empty list standing for an exception.\<close>

definition monthday_curve_of ::
  "py_error + (real list \<times> real list \<times> real list \<times> real list) \<times> random_state \<Rightarrow> real list" where
  "monthday_curve_of r = (case r of Inl e \<Rightarrow> [] | Inr ((m, md, wd, h), rs) \<Rightarrow> md)"


section \<open>Properties\<close>

subsection \<open>Sampling, clamping and initialisation\<close>

lemma getitem_in_range:
  "0 \<le> i \<Longrightarrow> i < int (length xs) \<Longrightarrow> getitem xs i = Inr (xs ! nat i)"
  by (simp add: getitem_def)

lemma multivariate_normal_Inr:
  "length mean = length cov \<Longrightarrow>
   multivariate_normal mean cov rs =
     Inr (map (\<lambda>(m, c, z). m + sqrt \<bar>c\<bar> * z)
            (zip mean (zip cov (map (tape rs) [pos rs ..< pos rs + length mean]))),
          rs\<lparr>pos := pos rs + length mean\<rparr>)"
  by (simp add: multivariate_normal_def standard_normals_def)

lemma multivariate_normal_Inl:
  "length mean \<noteq> length cov \<Longrightarrow> multivariate_normal mean cov rs = Inl ValueError"
  by (simp add: multivariate_normal_def)

lemma multivariate_normal_length:
  "multivariate_normal mean cov rs = Inr (xs, rs') \<Longrightarrow> length xs = length mean \<and> length cov = length mean \<and> rs' = rs\<lparr>pos := pos rs + length mean\<rparr>"
  by (auto simp: multivariate_normal_def standard_normals_def split: if_splits)

lemma multivariate_normal_nth:
  assumes "multivariate_normal mean cov rs = Inr (xs, rs')" and "i < length mean"
  shows "xs ! i = mean ! i + sqrt \<bar>cov ! i\<bar> * tape rs (pos rs + i)"
  using assms
  by (auto simp: multivariate_normal_def standard_normals_def split: if_splits)

lemma clamp_negative_nonneg: "x \<in> set (clamp_negative arr) \<Longrightarrow> 0 \<le> x"
  by (auto simp: clamp_negative_def)

lemma clamp_negative_length: "length (clamp_negative arr) = length arr"
  by (simp add: clamp_negative_def)

lemma clamp_negative_nth: "i < length arr \<Longrightarrow> clamp_negative arr ! i = max 0 (arr ! i)"
  by (simp add: clamp_negative_def max_def)

lemma clamp_negative_id: "\<forall>x \<in> set arr. 0 \<le> x \<Longrightarrow> clamp_negative arr = arr"
  by (induction arr) (auto simp: clamp_negative_def)

lemma multivariate_normal_zero_cov:
  assumes "length mean = length cov" and "\<forall>c \<in> set cov. c = 0"
  shows "multivariate_normal mean cov rs = Inr (mean, rs\<lparr>pos := pos rs + length mean\<rparr>)"
proof -
  have "map (\<lambda>(m, c, z). m + sqrt \<bar>c\<bar> * z) (zip mean (zip cov zs)) = mean"
    if "length zs = length mean" for zs :: "real list"
    using that assms by (intro nth_equalityI) auto
  then show ?thesis
    using assms by (simp add: multivariate_normal_def standard_normals_def)
qed

lemma itp_InrD:
  assumes "initialise_transaction_probabilities P self rs = Inr ((m, md, wd, h), rs')"
  obtains m0 md0 wd0 h0 rs1 rs2 rs3 where
    "multivariate_normal (p_frac_month P (fraudster self))
       (map (\<lambda>d. d * noise_level self / 1200) (eye 12)) rs = Inr (m0, rs1)"
    "multivariate_normal (p_frac_monthday P (fraudster self))
       (map (\<lambda>d. d * noise_level self / 305) (eye 31)) rs1 = Inr (md0, rs2)"
    "multivariate_normal (p_frac_weekday P (fraudster self))
       (map (\<lambda>d. d * noise_level self / 70) (eye 7)) rs2 = Inr (wd0, rs3)"
    "multivariate_normal (p_frac_hour P (fraudster self))
       (map (\<lambda>d. d * noise_level self / 240) (eye 24)) rs3 = Inr (h0, rs')"
    "m = clamp_negative m0" "md = clamp_negative md0"
    "wd = clamp_negative wd0" "h = clamp_negative h0"
  using assms unfolding initialise_transaction_probabilities_def
  by (auto split: sum.splits prod.splits)

lemma itp_total:
  assumes "length (p_frac_month P (fraudster self)) = 12"
    "length (p_frac_monthday P (fraudster self)) = 31"
    "length (p_frac_weekday P (fraudster self)) = 7"
    "length (p_frac_hour P (fraudster self)) = 24"
  shows "\<exists>m md wd h rs'. initialise_transaction_probabilities P self rs = Inr ((m, md, wd, h), rs')"
  using assms unfolding initialise_transaction_probabilities_def
  by (simp add: multivariate_normal_Inr eye_def)

lemma init_InrD:
  assumes "UniMausCustomer_init P self rs = Inr (self', rs')"
  obtains a rs1 m md wd h where
    "normal 0 (p_noise_level P * p_trans_per_year P (fraudster self)) rs = Inr (a, rs1)"
    "initialise_transaction_probabilities P
       (self\<lparr>noise_level := p_noise_level P,
              avg_trans_per_hour :=
                (if p_trans_per_year P (fraudster self) + a > 0
                 then p_trans_per_year P (fraudster self) + a
                 else p_trans_per_year P (fraudster self)) / 366 / 24
                  * p_transaction_motivation P (fraudster self)\<rparr>) rs1
       = Inr ((m, md, wd, h), rs')"
    "self' = self\<lparr>noise_level := p_noise_level P,
              avg_trans_per_hour :=
                (if p_trans_per_year P (fraudster self) + a > 0
                 then p_trans_per_year P (fraudster self) + a
                 else p_trans_per_year P (fraudster self)) / 366 / 24
                  * p_transaction_motivation P (fraudster self),
              trans_prob_month := m, trans_prob_monthday := md,
              trans_prob_weekday := wd, trans_prob_hour := h\<rparr>"
  using assms unfolding UniMausCustomer_init_def Let_def
  by (auto split: sum.splits prod.splits if_splits)


lemma init_total:
  assumes n: "normal 0 (p_noise_level P * p_trans_per_year P (fraudster self)) rs = Inr (a, rs1)"
    and len: "length (p_frac_month P (fraudster self)) = 12"
    "length (p_frac_monthday P (fraudster self)) = 31"
    "length (p_frac_weekday P (fraudster self)) = 7"
    "length (p_frac_hour P (fraudster self)) = 24"
  shows "\<exists>self' rs'. UniMausCustomer_init P self rs = Inr (self', rs') \<and>
           avg_trans_per_hour self' =
             (if p_trans_per_year P (fraudster self) + a > 0
              then p_trans_per_year P (fraudster self) + a
              else p_trans_per_year P (fraudster self)) / 366 / 24
               * p_transaction_motivation P (fraudster self)"
proof -
  define self3 where "self3 = self\<lparr>noise_level := p_noise_level P,
              avg_trans_per_hour :=
                (if p_trans_per_year P (fraudster self) + a > 0
                 then p_trans_per_year P (fraudster self) + a
                 else p_trans_per_year P (fraudster self)) / 366 / 24
                  * p_transaction_motivation P (fraudster self)\<rparr>"
  have "fraudster self3 = fraudster self" by (simp add: self3_def)
  with len obtain m md wd h rs' where
    itp: "initialise_transaction_probabilities P self3 rs1 = Inr ((m, md, wd, h), rs')"
    using itp_total[of P self3 rs1] by auto
  have "UniMausCustomer_init P self rs =
     Inr (self3\<lparr>trans_prob_month := m, trans_prob_monthday := md,
                trans_prob_weekday := wd, trans_prob_hour := h\<rparr>, rs')"
    unfolding UniMausCustomer_init_def Let_def
    using n itp
    by (cases "p_trans_per_year P (fraudster self) + a > 0") (simp_all add: self3_def)
  then show ?thesis by (simp add: self3_def)
qed


lemma scaled_eye_nth:
  "i < n \<Longrightarrow> map (\<lambda>d. d * x / k) (eye n) ! i = x / k"
  by (simp add: eye_def)

lemma scaled_eye_length: "length (map f (eye n)) = n"
  by (simp add: eye_def)


lemma sqrt_eq_2_iff: "sqrt x = 2 \<longleftrightarrow> x = 4"
  using real_sqrt_eq_iff[of x 4] by simp


subsection \<open>The transaction decision\<close>

lemma uniform_0_1: "uniform 0 1 rs = (tape rs (pos rs), rs\<lparr>pos := Suc (pos rs)\<rparr>)"
  by (simp add: uniform_def random_sample_def)

lemma decide_making_transaction_Inr:
  "get_curr_transaction_prob astimezone M self = Inr p \<Longrightarrow>
   decide_making_transaction astimezone M self rs =
     Inr (p > tape rs (pos rs), rs\<lparr>pos := Suc (pos rs)\<rparr>)"
  by (simp add: decide_making_transaction_def uniform_0_1)

lemma decide_making_transaction_Inl:
  "get_curr_transaction_prob astimezone M self = Inl e \<Longrightarrow>
   decide_making_transaction astimezone M self rs = Inl e"
  by (simp add: decide_making_transaction_def)

lemma get_curr_transaction_prob_zero:
  assumes "getitem (trans_prob_month self) (month (get_local_datetime astimezone M self) - 1) = Inr 0"
    and "getitem (trans_prob_hour self) (hour (get_local_datetime astimezone M self)) = Inr 0"
    and "getitem (trans_prob_monthday self) (day (get_local_datetime astimezone M self) - 1) = Inr 0"
    and "getitem (trans_prob_weekday self) (weekday (get_local_datetime astimezone M self)) = Inr 0"
  shows "get_curr_transaction_prob astimezone M self = Inr 0"
  using assms by (simp add: get_curr_transaction_prob_def)


subsection \<open>Card sourcing of the fraudster\<close>


lemma choice_Inr:
  assumes "a \<noteq> []"
  shows "\<exists>x \<in> set a. choice a rs = Inr (x, rs\<lparr>pos := Suc (pos rs)\<rparr>)"
proof -
  have "0 < int (length a)" using assms by simp
  then have "nat (\<lfloor>tape rs (pos rs)\<rfloor> mod int (length a)) < length a"
    by (simp add: nat_less_iff)
  then have "a ! nat (\<lfloor>tape rs (pos rs)\<rfloor> mod int (length a)) \<in> set a"
    by simp
  then show ?thesis
    using assms by (auto simp: choice_def random_sample_def)
qed



subsection \<open>Weighted choice and merchant lookup\<close>

lemma length_cumsum_from: "length (cumsum_from acc xs) = length xs"
  by (induction xs arbitrary: acc) simp_all

lemma cumsum_from_nth:
  "i < length xs \<Longrightarrow> cumsum_from acc xs ! i = acc + sum_list (take (Suc i) xs)"
proof (induction xs arbitrary: acc i)
  case Nil
  then show ?case by simp
next
  case (Cons x xs)
  show ?case
  proof (cases i)
    case 0
    then show ?thesis by simp
  next
    case (Suc j)
    with Cons.prems have "j < length xs" by simp
    from Cons.IH[OF this, of "acc + x"] Suc show ?thesis by simp
  qed
qed

lemma one_hot_sum_take:
  fixes p :: "real list"
  assumes "\<forall>i<length p. p ! i = (if i = k then 1 else 0)" and "n \<le> length p"
  shows "sum_list (take n p) = (if k < n then 1 else 0)"
  using assms(2)
proof (induction n)
  case 0
  then show ?case by simp
next
  case (Suc n)
  then have n: "n < length p" by simp
  then have "take (Suc n) p = take n p @ [p ! n]"
    by (simp add: take_Suc_conv_app_nth)
  moreover have "p ! n = (if n = k then 1 else 0)" using assms(1) n by simp
  moreover have "sum_list (take n p) = (if k < n then 1 else 0)" using Suc by simp
  ultimately show ?case by auto
qed

lemma one_hot_cumsum_nth:
  fixes p :: "real list"
  assumes "\<forall>i<length p. p ! i = (if i = k then 1 else 0)" and "i < length p"
  shows "cumsum p ! i = (if k \<le> i then 1 else 0)"
  using assms one_hot_sum_take[OF assms(1), of "Suc i"]
  by (auto simp: cumsum_def cumsum_from_nth)

lemma one_hot_searchsorted:
  fixes p :: "real list"
  assumes oh: "\<forall>i<length p. p ! i = (if i = k then 1 else 0)" and k: "k < length p"
    and u: "0 \<le> u" "u < 1"
  shows "searchsorted_right (map (\<lambda>c. c / last (cumsum p)) (cumsum p)) u = k"
proof -
  have len: "length (cumsum p) = length p"
    by (simp add: cumsum_def length_cumsum_from)
  with k have ne: "cumsum p \<noteq> []" by auto
  have "last (cumsum p) = cumsum p ! (length p - 1)"
    using ne len by (simp add: last_conv_nth)
  also have "\<dots> = 1"
    using one_hot_cumsum_nth[OF oh, of "length p - 1"] k by auto
  finally have cdf: "map (\<lambda>c. c / last (cumsum p)) (cumsum p) = cumsum p"
    by simp
  have "takeWhile (\<lambda>c. c \<le> u) (cumsum p) = take k (cumsum p)"
  proof (rule takeWhile_eq_take_P_nth)
    fix i assume "i < k" "i < length (cumsum p)"
    then show "cumsum p ! i \<le> u"
      using one_hot_cumsum_nth[OF oh, of i] len u by simp
  next
    assume "k < length (cumsum p)"
    then show "\<not> cumsum p ! k \<le> u"
      using one_hot_cumsum_nth[OF oh, of k] len u by simp
  qed
  then show ?thesis
    using k len by (simp add: searchsorted_right_def cdf)
qed

lemma one_hot_choice_p:
  fixes p :: "real list"
  assumes oh: "\<forall>i<length p. p ! i = (if i = k then 1 else 0)" and k: "k < length p"
    and len: "length a = length p"
    and u: "0 \<le> tape rs (pos rs)" "tape rs (pos rs) < 1"
  shows "choice_p a p rs = Inr (a ! k, rs\<lparr>pos := Suc (pos rs)\<rparr>)"
proof -
  have "a \<noteq> []" using k len by auto
  moreover have "\<not> (\<exists>x \<in> set p. x < 0)"
  proof
    assume "\<exists>x \<in> set p. x < 0"
    then obtain i where "i < length p" "p ! i < 0" by (auto simp: in_set_conv_nth)
    with oh show False by (auto split: if_splits)
  qed
  moreover have "sum_list p = 1"
    using one_hot_sum_take[OF oh, of "length p"] k by simp
  ultimately show ?thesis
    using len k one_hot_searchsorted[OF oh k u]
    by (simp add: choice_p_def random_sample_def)
qed

lemma filter_Cons_find: "filter P xs = m # ms \<Longrightarrow> find P xs = Some m"
  by (induction xs) (auto split: if_splits)

lemma pick_curr_merchant_found:
  assumes "p_merchant_per_currency P (fraudster self) (currency self) = Some merchant_prob"
    and "choice_p (map fst merchant_prob) (map snd merchant_prob) rs = Inr (merchant_ID, rs')"
    and "\<exists>m \<in> set (merchants M). m_unique_id m = merchant_ID"
  shows "\<exists>m. pick_curr_merchant P M self rs = (Inr m, rs') \<and> m \<in> set (merchants M) \<and>
             m_unique_id m = merchant_ID \<and>
             find (\<lambda>m. m_unique_id m = merchant_ID) (merchants M) = Some m"
proof -
  from assms(3) have "filter (\<lambda>m. m_unique_id m = merchant_ID) (merchants M) \<noteq> []"
    by (simp add: filter_empty_conv)
  then obtain m ms where f: "filter (\<lambda>m. m_unique_id m = merchant_ID) (merchants M) = m # ms"
    by (cases "filter (\<lambda>m. m_unique_id m = merchant_ID) (merchants M)") auto
  then have "m \<in> set (filter (\<lambda>m. m_unique_id m = merchant_ID) (merchants M))" by simp
  then have "m \<in> set (merchants M)" "m_unique_id m = merchant_ID" by auto
  moreover have "find (\<lambda>m. m_unique_id m = merchant_ID) (merchants M) = Some m"
    using f by (rule filter_Cons_find)
  moreover have "pick_curr_merchant P M self rs = (Inr m, rs')"
    using assms(1,2) f by (simp add: pick_curr_merchant_def)
  ultimately show ?thesis by blast
qed

lemma pick_curr_merchant_missing:
  assumes "p_merchant_per_currency P (fraudster self) (currency self) = Some merchant_prob"
    and "choice_p (map fst merchant_prob) (map snd merchant_prob) rs = Inr (merchant_ID, rs')"
    and "\<forall>m \<in> set (merchants M). m_unique_id m \<noteq> merchant_ID"
  shows "pick_curr_merchant P M self rs = (Inl IndexError, rs')"
proof -
  from assms(3) have "filter (\<lambda>m. m_unique_id m = merchant_ID) (merchants M) = []"
    by (simp add: filter_empty_conv)
  then show ?thesis
    using assms(1,2) by (simp add: pick_curr_merchant_def)
qed


lemma decide_staying_stay:
  "decide_staying P self rs = (self', rs') \<Longrightarrow> \<not> stay self \<Longrightarrow> \<not> stay self'"
  by (auto simp: decide_staying_def uniform_0_1 Let_def split: if_splits)

subsection \<open>The example inputs\<close>

lemma ex_normal:
  "normal 0 (p_noise_level ex_params * p_trans_per_year ex_params (fraudster ex_customer))
     (const_rs z) = Inr (z, (const_rs z)\<lparr>pos := 1\<rparr>)"
  by (simp add: normal_def random_sample_def const_rs_def ex_params_def)

lemma ex_params_lengths:
  "length (p_frac_month ex_params f) = 12"
  "length (p_frac_monthday ex_params f) = 31"
  "length (p_frac_weekday ex_params f) = 7"
  "length (p_frac_hour ex_params f) = 24"
  by (simp_all add: ex_params_def)


lemma ex_customer_prob:
  "get_curr_transaction_prob ex_astimezone ex_model ex_customer = Inr (61 / 62)"
  by (simp add: get_curr_transaction_prob_def get_local_datetime_def getitem_def
        ex_astimezone_def ex_model_def ex_customer_def new_year_def)

lemma corrupted_customer_prob:
  "get_curr_transaction_prob ex_astimezone ex_model corrupted_customer = Inr (61 / 62)"
  by (simp add: get_curr_transaction_prob_def get_local_datetime_def getitem_def
        ex_astimezone_def ex_model_def ex_customer_def corrupted_customer_def new_year_def)


lemma ex_choice_p:
  "choice_p (map fst [(0::nat, 0::real), (1, 1), (2, 0)]) (map snd [(0::nat, 0::real), (1, 1), (2, 0)])
      (const_rs (1 / 3)) = Inr (1, (const_rs (1 / 3))\<lparr>pos := 1\<rparr>)"
  by (simp add: choice_p_def random_sample_def cumsum_def searchsorted_right_def const_rs_def)


subsection \<open>The transaction probability\<close>

text \<open>
  C1. When the four curves have 12, 31, 7 and 24 entries and the local time is a calendar
  time (month 1 to 12, day 1 to 31, weekday 0 to 6, hour 0 to 23),
  \<open>get_curr_transaction_prob\<close> returns the average rate times twelve times the
  month entry, 24 times the hour entry, 30.5 times the day entry and seven times the
  weekday entry. With a noise level of zero and non-negative mean curves the constructor
  succeeds for every tape, leaves the yearly rate unperturbed, takes the mean curves as
  they are, and at the local time (month 1, day 1, weekday 0, hour 0) the probability is
  the product over the first entries of the mean curves.
\<close>

theorem get_curr_transaction_prob_formula:
  "(length (trans_prob_month self) = 12 \<and> length (trans_prob_monthday self) = 31 \<and>
    length (trans_prob_weekday self) = 7 \<and> length (trans_prob_hour self) = 24 \<and>
    ld = get_local_datetime astimezone M self \<and>
    1 \<le> month ld \<and> month ld \<le> 12 \<and> 1 \<le> day ld \<and> day ld \<le> 31 \<and>
    0 \<le> weekday ld \<and> weekday ld \<le> 6 \<and> 0 \<le> hour ld \<and> hour ld \<le> 23 \<longrightarrow>
    get_curr_transaction_prob astimezone M self =
      Inr (avg_trans_per_hour self
           * (12 * trans_prob_month self ! nat (month ld - 1))
           * (24 * trans_prob_hour self ! nat (hour ld))
           * (30.5 * trans_prob_monthday self ! nat (day ld - 1))
           * (7 * trans_prob_weekday self ! nat (weekday ld))))
   \<and>
   (p_noise_level P = 0 \<and>
    length (p_frac_month P (fraudster self0)) = 12 \<and>
    length (p_frac_monthday P (fraudster self0)) = 31 \<and>
    length (p_frac_weekday P (fraudster self0)) = 7 \<and>
    length (p_frac_hour P (fraudster self0)) = 24 \<and>
    (\<forall>x \<in> set (p_frac_month P (fraudster self0)). 0 \<le> x) \<and>
    (\<forall>x \<in> set (p_frac_monthday P (fraudster self0)). 0 \<le> x) \<and>
    (\<forall>x \<in> set (p_frac_weekday P (fraudster self0)). 0 \<le> x) \<and>
    (\<forall>x \<in> set (p_frac_hour P (fraudster self0)). 0 \<le> x) \<and>
    astimezone (curr_global_date M) (country self0) =
      \<lparr>month = 1, day = 1, hour = 0, weekday = 0\<rparr> \<longrightarrow>
    (\<exists>self' rs'. UniMausCustomer_init P self0 rs = Inr (self', rs') \<and>
       avg_trans_per_hour self' =
         p_trans_per_year P (fraudster self0) / 366 / 24
           * p_transaction_motivation P (fraudster self0) \<and>
       get_curr_transaction_prob astimezone M self' =
         Inr (avg_trans_per_hour self'
              * (12 * p_frac_month P (fraudster self0) ! 0)
              * (24 * p_frac_hour P (fraudster self0) ! 0)
              * (30.5 * p_frac_monthday P (fraudster self0) ! 0)
              * (7 * p_frac_weekday P (fraudster self0) ! 0))))"
proof (intro conjI impI)
  assume h: "length (trans_prob_month self) = 12 \<and> length (trans_prob_monthday self) = 31 \<and>
    length (trans_prob_weekday self) = 7 \<and> length (trans_prob_hour self) = 24 \<and>
    ld = get_local_datetime astimezone M self \<and>
    1 \<le> month ld \<and> month ld \<le> 12 \<and> 1 \<le> day ld \<and> day ld \<le> 31 \<and>
    0 \<le> weekday ld \<and> weekday ld \<le> 6 \<and> 0 \<le> hour ld \<and> hour ld \<le> 23"
  then have
    "getitem (trans_prob_month self) (month ld - 1) = Inr (trans_prob_month self ! nat (month ld - 1))"
    "getitem (trans_prob_hour self) (hour ld) = Inr (trans_prob_hour self ! nat (hour ld))"
    "getitem (trans_prob_monthday self) (day ld - 1) = Inr (trans_prob_monthday self ! nat (day ld - 1))"
    "getitem (trans_prob_weekday self) (weekday ld) = Inr (trans_prob_weekday self ! nat (weekday ld))"
    by (auto simp: getitem_def)
  moreover from h have "get_local_datetime astimezone M self = ld" by simp
  ultimately show "get_curr_transaction_prob astimezone M self =
      Inr (avg_trans_per_hour self
           * (12 * trans_prob_month self ! nat (month ld - 1))
           * (24 * trans_prob_hour self ! nat (hour ld))
           * (30.5 * trans_prob_monthday self ! nat (day ld - 1))
           * (7 * trans_prob_weekday self ! nat (weekday ld)))"
    by (simp add: get_curr_transaction_prob_def)
next
  assume h: "p_noise_level P = 0 \<and>
    length (p_frac_month P (fraudster self0)) = 12 \<and>
    length (p_frac_monthday P (fraudster self0)) = 31 \<and>
    length (p_frac_weekday P (fraudster self0)) = 7 \<and>
    length (p_frac_hour P (fraudster self0)) = 24 \<and>
    (\<forall>x \<in> set (p_frac_month P (fraudster self0)). 0 \<le> x) \<and>
    (\<forall>x \<in> set (p_frac_monthday P (fraudster self0)). 0 \<le> x) \<and>
    (\<forall>x \<in> set (p_frac_weekday P (fraudster self0)). 0 \<le> x) \<and>
    (\<forall>x \<in> set (p_frac_hour P (fraudster self0)). 0 \<le> x) \<and>
    astimezone (curr_global_date M) (country self0) =
      \<lparr>month = 1, day = 1, hour = 0, weekday = 0\<rparr>"
  define b where "b = p_trans_per_year P (fraudster self0)"
  define self3 where "self3 = self0\<lparr>noise_level := 0,
     avg_trans_per_hour := b / 366 / 24 * p_transaction_motivation P (fraudster self0)\<rparr>"
  have n: "normal 0 (p_noise_level P * b) rs = Inr (0, rs\<lparr>pos := Suc (pos rs)\<rparr>)"
    using h by (simp add: normal_def random_sample_def)
  have itp: "initialise_transaction_probabilities P self3 rs1 =
     Inr ((p_frac_month P (fraudster self0), p_frac_monthday P (fraudster self0),
           p_frac_weekday P (fraudster self0), p_frac_hour P (fraudster self0)),
          rs1\<lparr>pos := pos rs1 + 74\<rparr>)" for rs1
    using h unfolding initialise_transaction_probabilities_def self3_def
    by (simp add: multivariate_normal_zero_cov clamp_negative_id eye_def)
  have init: "UniMausCustomer_init P self0 rs =
     Inr (self3\<lparr>trans_prob_month := p_frac_month P (fraudster self0),
                trans_prob_monthday := p_frac_monthday P (fraudster self0),
                trans_prob_weekday := p_frac_weekday P (fraudster self0),
                trans_prob_hour := p_frac_hour P (fraudster self0)\<rparr>,
          rs\<lparr>pos := pos rs + 75\<rparr>)"
    unfolding UniMausCustomer_init_def Let_def
    using n h itp[of "rs\<lparr>pos := Suc (pos rs)\<rparr>"]
    by (simp add: b_def self3_def)
  show "\<exists>self' rs'. UniMausCustomer_init P self0 rs = Inr (self', rs') \<and>
       avg_trans_per_hour self' =
         p_trans_per_year P (fraudster self0) / 366 / 24
           * p_transaction_motivation P (fraudster self0) \<and>
       get_curr_transaction_prob astimezone M self' =
         Inr (avg_trans_per_hour self'
              * (12 * p_frac_month P (fraudster self0) ! 0)
              * (24 * p_frac_hour P (fraudster self0) ! 0)
              * (30.5 * p_frac_monthday P (fraudster self0) ! 0)
              * (7 * p_frac_weekday P (fraudster self0) ! 0))"
    unfolding init using h
    by (simp add: self3_def b_def get_curr_transaction_prob_def get_local_datetime_def getitem_def)
qed

theorem get_curr_transaction_prob_formula_witness:
  "get_curr_transaction_prob ex_astimezone ex_model ex_customer = Inr (61 / 62) \<and>
   (\<exists>self' rs'.
      UniMausCustomer_init (ex_params\<lparr>p_noise_level := 0\<rparr>) ex_customer (const_rs 3)
        = Inr (self', rs') \<and>
      avg_trans_per_hour self' = 1 / 8784 \<and>
      get_curr_transaction_prob ex_astimezone ex_model self' = Inr (61 / 544608))"
  using get_curr_transaction_prob_formula
          [of ex_customer new_year ex_astimezone ex_model "ex_params\<lparr>p_noise_level := 0\<rparr>"
              ex_customer "const_rs 3"]
  by (auto simp: ex_customer_def ex_params_def ex_model_def ex_astimezone_def new_year_def
        get_local_datetime_def)


subsection \<open>Invariants of a freshly initialised agent\<close>

text \<open>
  C2. Whenever the constructor returns, for every noise level and every tape, the four
  curves have 12, 31, 7 and 24 entries, all of them non-negative; if the yearly rate of the
  class and its motivation factor are non-negative, so is \<open>avg_trans_per_hour\<close>.
  And the constructor does return when the noise level and the yearly rate are
  non-negative and the mean curves of the class have the four sizes.
\<close>

theorem init_curves_nonneg:
  "(\<forall>self' rs'. UniMausCustomer_init P self rs = Inr (self', rs') \<longrightarrow>
      (\<forall>x \<in> set (trans_prob_month self'). 0 \<le> x) \<and> length (trans_prob_month self') = 12 \<and>
      (\<forall>x \<in> set (trans_prob_monthday self'). 0 \<le> x) \<and> length (trans_prob_monthday self') = 31 \<and>
      (\<forall>x \<in> set (trans_prob_weekday self'). 0 \<le> x) \<and> length (trans_prob_weekday self') = 7 \<and>
      (\<forall>x \<in> set (trans_prob_hour self'). 0 \<le> x) \<and> length (trans_prob_hour self') = 24 \<and>
      (0 \<le> p_trans_per_year P (fraudster self) \<and> 0 \<le> p_transaction_motivation P (fraudster self)
         \<longrightarrow> 0 \<le> avg_trans_per_hour self'))
   \<and>
   (0 \<le> p_noise_level P \<and> 0 \<le> p_trans_per_year P (fraudster self) \<and>
    length (p_frac_month P (fraudster self)) = 12 \<and>
    length (p_frac_monthday P (fraudster self)) = 31 \<and>
    length (p_frac_weekday P (fraudster self)) = 7 \<and>
    length (p_frac_hour P (fraudster self)) = 24 \<longrightarrow>
    (\<exists>self' rs'. UniMausCustomer_init P self rs = Inr (self', rs')))"
proof (intro conjI allI impI)
  fix self' rs'
  assume init: "UniMausCustomer_init P self rs = Inr (self', rs')"
  then obtain a rs1 m md wd h where
    itp: "initialise_transaction_probabilities P
       (self\<lparr>noise_level := p_noise_level P,
              avg_trans_per_hour :=
                (if p_trans_per_year P (fraudster self) + a > 0
                 then p_trans_per_year P (fraudster self) + a
                 else p_trans_per_year P (fraudster self)) / 366 / 24
                  * p_transaction_motivation P (fraudster self)\<rparr>) rs1
       = Inr ((m, md, wd, h), rs')"
    and self': "self' = self\<lparr>noise_level := p_noise_level P,
              avg_trans_per_hour :=
                (if p_trans_per_year P (fraudster self) + a > 0
                 then p_trans_per_year P (fraudster self) + a
                 else p_trans_per_year P (fraudster self)) / 366 / 24
                  * p_transaction_motivation P (fraudster self),
              trans_prob_month := m, trans_prob_monthday := md,
              trans_prob_weekday := wd, trans_prob_hour := h\<rparr>"
    by (rule init_InrD)
  from itp obtain m0 md0 wd0 h0 rs2 rs3 rs4 where
    mv: "multivariate_normal (p_frac_month P (fraudster self))
       (map (\<lambda>d. d * p_noise_level P / 1200) (eye 12)) rs1 = Inr (m0, rs2)"
    "multivariate_normal (p_frac_monthday P (fraudster self))
       (map (\<lambda>d. d * p_noise_level P / 305) (eye 31)) rs2 = Inr (md0, rs3)"
    "multivariate_normal (p_frac_weekday P (fraudster self))
       (map (\<lambda>d. d * p_noise_level P / 70) (eye 7)) rs3 = Inr (wd0, rs4)"
    "multivariate_normal (p_frac_hour P (fraudster self))
       (map (\<lambda>d. d * p_noise_level P / 240) (eye 24)) rs4 = Inr (h0, rs')"
    and cl: "m = clamp_negative m0" "md = clamp_negative md0"
    "wd = clamp_negative wd0" "h = clamp_negative h0"
    by (rule itp_InrD) simp_all
  show "\<forall>x \<in> set (trans_prob_month self'). 0 \<le> x"
    using self' cl by (simp add: clamp_negative_nonneg)
  show "\<forall>x \<in> set (trans_prob_monthday self'). 0 \<le> x"
    using self' cl by (simp add: clamp_negative_nonneg)
  show "\<forall>x \<in> set (trans_prob_weekday self'). 0 \<le> x"
    using self' cl by (simp add: clamp_negative_nonneg)
  show "\<forall>x \<in> set (trans_prob_hour self'). 0 \<le> x"
    using self' cl by (simp add: clamp_negative_nonneg)
  show "length (trans_prob_month self') = 12"
    using self' cl multivariate_normal_length[OF mv(1)]
    by (simp add: clamp_negative_length eye_def)
  show "length (trans_prob_monthday self') = 31"
    using self' cl multivariate_normal_length[OF mv(2)]
    by (simp add: clamp_negative_length eye_def)
  show "length (trans_prob_weekday self') = 7"
    using self' cl multivariate_normal_length[OF mv(3)]
    by (simp add: clamp_negative_length eye_def)
  show "length (trans_prob_hour self') = 24"
    using self' cl multivariate_normal_length[OF mv(4)]
    by (simp add: clamp_negative_length eye_def)
  assume "0 \<le> p_trans_per_year P (fraudster self) \<and> 0 \<le> p_transaction_motivation P (fraudster self)"
  then show "0 \<le> avg_trans_per_hour self'"
    using self' by simp
next
  assume h: "0 \<le> p_noise_level P \<and> 0 \<le> p_trans_per_year P (fraudster self) \<and>
    length (p_frac_month P (fraudster self)) = 12 \<and>
    length (p_frac_monthday P (fraudster self)) = 31 \<and>
    length (p_frac_weekday P (fraudster self)) = 7 \<and>
    length (p_frac_hour P (fraudster self)) = 24"
  then have "\<not> p_noise_level P * p_trans_per_year P (fraudster self) < 0"
    by (simp add: not_less)
  then obtain a rs1 where
    n: "normal 0 (p_noise_level P * p_trans_per_year P (fraudster self)) rs = Inr (a, rs1)"
    by (simp add: normal_def random_sample_def)
  show "\<exists>self' rs'. UniMausCustomer_init P self rs = Inr (self', rs')"
    using init_total[OF n] h by blast
qed

theorem init_curves_nonneg_witness:
  "\<exists>self' rs'. UniMausCustomer_init ex_params ex_customer (const_rs (- 1)) = Inr (self', rs') \<and>
      (\<forall>x \<in> set (trans_prob_month self'). 0 \<le> x) \<and>
      (\<forall>x \<in> set (trans_prob_monthday self'). 0 \<le> x) \<and>
      (\<forall>x \<in> set (trans_prob_weekday self'). 0 \<le> x) \<and>
      (\<forall>x \<in> set (trans_prob_hour self'). 0 \<le> x) \<and>
      0 \<le> avg_trans_per_hour self'"
proof -
  have "0 \<le> p_noise_level ex_params \<and> 0 \<le> p_trans_per_year ex_params (fraudster ex_customer) \<and>
    0 \<le> p_transaction_motivation ex_params (fraudster ex_customer) \<and>
    length (p_frac_month ex_params (fraudster ex_customer)) = 12 \<and>
    length (p_frac_monthday ex_params (fraudster ex_customer)) = 31 \<and>
    length (p_frac_weekday ex_params (fraudster ex_customer)) = 7 \<and>
    length (p_frac_hour ex_params (fraudster ex_customer)) = 24"
    by (simp add: ex_params_def)
  then show ?thesis
    using init_curves_nonneg[of ex_params ex_customer "const_rs (- 1)"] by blast
qed


subsection \<open>Covariance of the curve perturbation\<close>

text \<open>
  C3, as amended. For a non-negative noise level and mean curves of 12, 31, 7 and 24
  entries, \<open>initialise_transaction_probabilities\<close> returns, having consumed 74
  variates. Each curve is the clamp of a sample centred on the class's mean curve with an
  isotropic covariance of \<open>noise_level / 1200\<close> for the month,
  \<open>noise_level / 305\<close> for the day of the month, \<open>noise_level / 70\<close> for the
  weekday and \<open>noise_level / 240\<close> for the hour: entry \<open>i\<close> is the maximum of zero
  and the mean entry plus the square root of that covariance times the standard normal
  variate drawn for it.
\<close>

theorem initialise_transaction_probabilities_covariance:
  assumes "length (p_frac_month P (fraudster self)) = 12"
    and "length (p_frac_monthday P (fraudster self)) = 31"
    and "length (p_frac_weekday P (fraudster self)) = 7"
    and "length (p_frac_hour P (fraudster self)) = 24"
    and "0 \<le> noise_level self"
  shows "\<exists>m md wd h.
     initialise_transaction_probabilities P self rs
       = Inr ((m, md, wd, h), rs\<lparr>pos := pos rs + 74\<rparr>) \<and>
     length m = 12 \<and> length md = 31 \<and> length wd = 7 \<and> length h = 24 \<and>
     (\<forall>i<12. m ! i = max 0 (p_frac_month P (fraudster self) ! i
                  + sqrt (noise_level self / 1200) * tape rs (pos rs + i))) \<and>
     (\<forall>i<31. md ! i = max 0 (p_frac_monthday P (fraudster self) ! i
                  + sqrt (noise_level self / 305) * tape rs (pos rs + 12 + i))) \<and>
     (\<forall>i<7. wd ! i = max 0 (p_frac_weekday P (fraudster self) ! i
                  + sqrt (noise_level self / 70) * tape rs (pos rs + 43 + i))) \<and>
     (\<forall>i<24. h ! i = max 0 (p_frac_hour P (fraudster self) ! i
                  + sqrt (noise_level self / 240) * tape rs (pos rs + 50 + i)))"
proof -
  obtain m md wd h rs' where
    itp: "initialise_transaction_probabilities P self rs = Inr ((m, md, wd, h), rs')"
    using itp_total[OF assms(1-4)] by blast
  then obtain m0 md0 wd0 h0 rs1 rs2 rs3 where
    mv: "multivariate_normal (p_frac_month P (fraudster self))
       (map (\<lambda>d. d * noise_level self / 1200) (eye 12)) rs = Inr (m0, rs1)"
    "multivariate_normal (p_frac_monthday P (fraudster self))
       (map (\<lambda>d. d * noise_level self / 305) (eye 31)) rs1 = Inr (md0, rs2)"
    "multivariate_normal (p_frac_weekday P (fraudster self))
       (map (\<lambda>d. d * noise_level self / 70) (eye 7)) rs2 = Inr (wd0, rs3)"
    "multivariate_normal (p_frac_hour P (fraudster self))
       (map (\<lambda>d. d * noise_level self / 240) (eye 24)) rs3 = Inr (h0, rs')"
    and cl: "m = clamp_negative m0" "md = clamp_negative md0"
    "wd = clamp_negative wd0" "h = clamp_negative h0"
    by (rule itp_InrD)
  note len = multivariate_normal_length[OF mv(1)] multivariate_normal_length[OF mv(2)]
    multivariate_normal_length[OF mv(3)] multivariate_normal_length[OF mv(4)]
  have rs1: "rs1 = rs\<lparr>pos := pos rs + 12\<rparr>" using len(1) assms by simp
  have rs2: "rs2 = rs\<lparr>pos := pos rs + 43\<rparr>" using len(2) assms rs1 by simp
  have rs3: "rs3 = rs\<lparr>pos := pos rs + 50\<rparr>" using len(3) assms rs2 by simp
  have rs': "rs' = rs\<lparr>pos := pos rs + 74\<rparr>" using len(4) assms rs3 by simp
  have a: "\<bar>noise_level self\<bar> = noise_level self"
    using assms(5) by simp
  have m: "m ! i = max 0 (p_frac_month P (fraudster self) ! i
                  + sqrt (noise_level self / 1200) * tape rs (pos rs + i))" if "i < 12" for i
    using that multivariate_normal_nth[OF mv(1), of i] len(1) assms(1) cl(1)
    by (simp add: clamp_negative_nth scaled_eye_nth a)
  have md: "md ! i = max 0 (p_frac_monthday P (fraudster self) ! i
                  + sqrt (noise_level self / 305) * tape rs (pos rs + 12 + i))" if "i < 31" for i
    using that multivariate_normal_nth[OF mv(2), of i] len(2) assms(2) cl(2) rs1
    by (simp add: clamp_negative_nth scaled_eye_nth a)
  have wd: "wd ! i = max 0 (p_frac_weekday P (fraudster self) ! i
                  + sqrt (noise_level self / 70) * tape rs (pos rs + 43 + i))" if "i < 7" for i
    using that multivariate_normal_nth[OF mv(3), of i] len(3) assms(3) cl(3) rs2
    by (simp add: clamp_negative_nth scaled_eye_nth a)
  have h: "h ! i = max 0 (p_frac_hour P (fraudster self) ! i
                  + sqrt (noise_level self / 240) * tape rs (pos rs + 50 + i))" if "i < 24" for i
    using that multivariate_normal_nth[OF mv(4), of i] len(4) assms(4) cl(4) rs3
    by (simp add: clamp_negative_nth scaled_eye_nth a)
  have "length m = 12" "length md = 31" "length wd = 7" "length h = 24"
    using len assms cl by (simp_all add: clamp_negative_length)
  with itp rs' m md wd h show ?thesis by blast
qed

theorem initialise_transaction_probabilities_covariance_witness:
  "\<exists>m md wd h.
     initialise_transaction_probabilities ex_params noisy_customer (const_rs 1)
       = Inr ((m, md, wd, h), (const_rs 1)\<lparr>pos := pos (const_rs 1) + 74\<rparr>) \<and>
     md ! 0 = 63 / 31"
proof -
  have "0 \<le> noise_level noisy_customer"
    by (simp add: noisy_customer_def)
  with initialise_transaction_probabilities_covariance
         [where P = ex_params and self = noisy_customer and rs = "const_rs 1"]
       ex_params_lengths
  obtain m md wd h where
    r: "initialise_transaction_probabilities ex_params noisy_customer (const_rs 1)
       = Inr ((m, md, wd, h), (const_rs 1)\<lparr>pos := pos (const_rs 1) + 74\<rparr>)"
    and md: "\<forall>i<31. md ! i = max 0 (p_frac_monthday ex_params (fraudster noisy_customer) ! i
                  + sqrt (noise_level noisy_customer / 305)
                    * tape (const_rs 1) (pos (const_rs 1) + 12 + i))"
    by blast
  from md have "md ! 0 = 63 / 31"
    by (simp add: ex_params_def noisy_customer_def const_rs_def)
  with r show ?thesis by blast
qed

text \<open>
  As the specification words it, with \<open>noise_level / (100 * dimension_size)\<close> in every
  dimension, the statement fails for the day of the month (and likewise for weekday and hour): at a
  noise level of 1220, a mean entry of \<open>1/31\<close> and a variate of 1 the code's entry is
  \<open>1/31 + sqrt (1220/305) = 63/31\<close>, while a covariance of \<open>1220/3100\<close> gives
  another value.
\<close>

theorem spec_covariance_counterexample:
  "monthday_curve_of
     (initialise_transaction_probabilities ex_params noisy_customer (const_rs 1)) ! 0 = 63 / 31 \<and>
   monthday_curve_of
     (spec_initialise_transaction_probabilities ex_params noisy_customer (const_rs 1)) ! 0
     \<noteq> 63 / 31"
proof
  show "monthday_curve_of
     (initialise_transaction_probabilities ex_params noisy_customer (const_rs 1)) ! 0 = 63 / 31"
    by (simp add: initialise_transaction_probabilities_def multivariate_normal_def
          standard_normals_def eye_def clamp_negative_def monthday_curve_of_def
          ex_params_def noisy_customer_def ex_customer_def const_rs_def)
  show "monthday_curve_of
     (spec_initialise_transaction_probabilities ex_params noisy_customer (const_rs 1)) ! 0
     \<noteq> 63 / 31"
    by (simp add: spec_initialise_transaction_probabilities_def spec_covariance_def
          multivariate_normal_def
          standard_normals_def eye_def clamp_negative_def monthday_curve_of_def
          ex_params_def noisy_customer_def ex_customer_def const_rs_def sqrt_eq_2_iff)
qed


subsection \<open>The genuine customer's decision\<close>

text \<open>
  C4, as amended. After the base decision the genuine customer's
  \<open>decide_making_transaction\<close> draws one more variate \<open>u\<close> of the unit interval on
  every call, whatever the base decision and whether or not the card is corrupted. Exactly
  when the base decision is true, the card is corrupted and \<open>1 - stay_after_fraud > u\<close>,
  the call returns false and sets \<open>stay\<close> to false; otherwise it returns the base
  decision and leaves the agent as it is. In particular, with a corrupted card, a true base
  decision and \<open>stay_after_fraud = 0\<close>, every variate \<open>u < 1\<close> cancels the
  transaction and sets \<open>stay\<close> to false. An exception of the base decision is passed
  on, and the call never sets \<open>stay\<close> back to true.
\<close>

theorem genuine_decide_making_transaction_cancel:
  "(decide_making_transaction astimezone M self rs = Inr (do_trans, rs1) \<longrightarrow>
      genuine_decide_making_transaction astimezone P M self rs =
        (if do_trans \<and> card_corrupted self \<and> 1 - p_stay_after_fraud P > tape rs1 (pos rs1)
         then Inr (False, self\<lparr>stay := False\<rparr>, rs1\<lparr>pos := Suc (pos rs1)\<rparr>)
         else Inr (do_trans, self, rs1\<lparr>pos := Suc (pos rs1)\<rparr>)))
   \<and>
   (decide_making_transaction astimezone M self rs = Inr (True, rs1) \<and>
    card_corrupted self \<and> p_stay_after_fraud P = 0 \<and> tape rs1 (pos rs1) < 1 \<longrightarrow>
      genuine_decide_making_transaction astimezone P M self rs =
        Inr (False, self\<lparr>stay := False\<rparr>, rs1\<lparr>pos := Suc (pos rs1)\<rparr>))
   \<and>
   (decide_making_transaction astimezone M self rs = Inl e \<longrightarrow>
      genuine_decide_making_transaction astimezone P M self rs = Inl e)
   \<and>
   (genuine_decide_making_transaction astimezone P M self rs = Inr (b, self', rs') \<and>
    \<not> stay self \<longrightarrow> \<not> stay self')"
  by (auto simp: genuine_decide_making_transaction_def uniform_0_1
        split: sum.splits prod.splits if_splits)

theorem genuine_decide_making_transaction_cancel_witness:
  "genuine_decide_making_transaction ex_astimezone ex_params ex_model corrupted_customer
     (const_rs (1 / 2))
   = Inr (False, corrupted_customer\<lparr>stay := False\<rparr>, (const_rs (1 / 2))\<lparr>pos := 2\<rparr>) \<and>
   genuine_decide_making_transaction ex_astimezone ex_params ex_model idle_customer
     (const_rs (1 / 2))
   = Inr (False, idle_customer, (const_rs (1 / 2))\<lparr>pos := 2\<rparr>) \<and>
   genuine_decide_making_transaction ex_astimezone ex_params ex_model curveless_customer
     (const_rs (1 / 2))
   = Inl IndexError \<and>
   genuine_decide_making_transaction ex_astimezone ex_params ex_model departed_customer
     (const_rs (1 / 2))
   = Inr (True, departed_customer, (const_rs (1 / 2))\<lparr>pos := 2\<rparr>) \<and>
   \<not> stay departed_customer"
proof -
  have d: "decide_making_transaction ex_astimezone ex_model corrupted_customer
      (const_rs (1 / 2)) = Inr (True, (const_rs (1 / 2))\<lparr>pos := 1\<rparr>)"
    using decide_making_transaction_Inr[OF corrupted_customer_prob, of "const_rs (1 / 2)"]
    by (simp add: const_rs_def)
  have i: "decide_making_transaction ex_astimezone ex_model idle_customer
      (const_rs (1 / 2)) = Inr (False, (const_rs (1 / 2))\<lparr>pos := 1\<rparr>)"
    by (simp add: decide_making_transaction_def uniform_0_1 get_curr_transaction_prob_def
          const_rs_def getitem_def get_local_datetime_def
          ex_astimezone_def ex_model_def ex_customer_def idle_customer_def new_year_def)
  have c: "decide_making_transaction ex_astimezone ex_model curveless_customer
      (const_rs (1 / 2)) = Inl IndexError"
    by (simp add: decide_making_transaction_def get_curr_transaction_prob_def
          getitem_def get_local_datetime_def
          ex_astimezone_def ex_model_def ex_customer_def curveless_customer_def new_year_def)
  have g: "decide_making_transaction ex_astimezone ex_model departed_customer
      (const_rs (1 / 2)) = Inr (True, (const_rs (1 / 2))\<lparr>pos := 1\<rparr>)"
    by (simp add: decide_making_transaction_def uniform_0_1 get_curr_transaction_prob_def
          const_rs_def getitem_def get_local_datetime_def
          ex_astimezone_def ex_model_def ex_customer_def departed_customer_def new_year_def)
  have "genuine_decide_making_transaction ex_astimezone ex_params ex_model corrupted_customer
     (const_rs (1 / 2))
   = Inr (False, corrupted_customer\<lparr>stay := False\<rparr>, (const_rs (1 / 2))\<lparr>pos := 2\<rparr>)"
    using genuine_decide_making_transaction_cancel
            [of ex_astimezone ex_model corrupted_customer "const_rs (1 / 2)" True
                "(const_rs (1 / 2))\<lparr>pos := 1\<rparr>" ex_params] d
    by (simp add: const_rs_def ex_params_def corrupted_customer_def)
  moreover have "genuine_decide_making_transaction ex_astimezone ex_params ex_model idle_customer
     (const_rs (1 / 2))
   = Inr (False, idle_customer, (const_rs (1 / 2))\<lparr>pos := 2\<rparr>)"
    using genuine_decide_making_transaction_cancel
            [of ex_astimezone ex_model idle_customer "const_rs (1 / 2)" False
                "(const_rs (1 / 2))\<lparr>pos := 1\<rparr>" ex_params] i
    by (simp add: const_rs_def)
  moreover have "genuine_decide_making_transaction ex_astimezone ex_params ex_model
     curveless_customer (const_rs (1 / 2)) = Inl IndexError"
    using genuine_decide_making_transaction_cancel
            [of ex_astimezone ex_model curveless_customer "const_rs (1 / 2)" _ _ ex_params
                IndexError] c
    by simp
  moreover have r: "genuine_decide_making_transaction ex_astimezone ex_params ex_model
     departed_customer (const_rs (1 / 2))
   = Inr (True, departed_customer, (const_rs (1 / 2))\<lparr>pos := 2\<rparr>)"
    using genuine_decide_making_transaction_cancel
            [of ex_astimezone ex_model departed_customer "const_rs (1 / 2)" True
                "(const_rs (1 / 2))\<lparr>pos := 1\<rparr>" ex_params] g
    by (simp add: const_rs_def departed_customer_def ex_customer_def)
  moreover have "\<not> stay departed_customer"
    using genuine_decide_making_transaction_cancel
            [of ex_astimezone ex_model departed_customer "const_rs (1 / 2)" _ _ ex_params _
                True departed_customer "(const_rs (1 / 2))\<lparr>pos := 2\<rparr>"] r
    by (simp add: departed_customer_def)
  ultimately show ?thesis by simp
qed

text \<open>
  The specification has the second variate drawn exactly when a transaction would occur
  and the card is corrupted. For an agent whose card is not corrupted the base decision
  leaves the generator at position 1 and the whole call at position 2: the variate is drawn
  all the same.
\<close>

theorem genuine_draw_unconditional_counterexample:
  "\<not> card_corrupted ex_customer \<and>
   decide_making_transaction ex_astimezone ex_model ex_customer (const_rs (1 / 2))
     = Inr (True, (const_rs (1 / 2))\<lparr>pos := 1\<rparr>) \<and>
   genuine_decide_making_transaction ex_astimezone ex_params ex_model ex_customer
     (const_rs (1 / 2))
     = Inr (True, ex_customer, (const_rs (1 / 2))\<lparr>pos := 2\<rparr>)"
proof -
  have d: "decide_making_transaction ex_astimezone ex_model ex_customer
      (const_rs (1 / 2)) = Inr (True, (const_rs (1 / 2))\<lparr>pos := 1\<rparr>)"
    using decide_making_transaction_Inr[OF ex_customer_prob, of "const_rs (1 / 2)"]
    by (simp add: const_rs_def)
  then show ?thesis
    by (simp add: genuine_decide_making_transaction_def uniform_0_1 const_rs_def
          ex_customer_def)
qed


subsection \<open>The base decision\<close>

text \<open>
  C5. When the probability \<open>p\<close> can be computed, the base
  \<open>decide_making_transaction\<close> consumes one variate \<open>u\<close> of the unit interval and
  returns true if and only if \<open>p > u\<close>. When the four curve entries at the current
  local time are all zero, it returns false for every variate \<open>u \<ge> 0\<close>.
\<close>

theorem decide_making_transaction_iff:
  "(get_curr_transaction_prob astimezone M self = Inr p \<longrightarrow>
      decide_making_transaction astimezone M self rs =
        Inr (p > tape rs (pos rs), rs\<lparr>pos := Suc (pos rs)\<rparr>))
   \<and>
   (getitem (trans_prob_month self) (month (get_local_datetime astimezone M self) - 1) = Inr 0 \<and>
    getitem (trans_prob_hour self) (hour (get_local_datetime astimezone M self)) = Inr 0 \<and>
    getitem (trans_prob_monthday self) (day (get_local_datetime astimezone M self) - 1) = Inr 0 \<and>
    getitem (trans_prob_weekday self) (weekday (get_local_datetime astimezone M self)) = Inr 0 \<and>
    0 \<le> tape rs (pos rs) \<longrightarrow>
      decide_making_transaction astimezone M self rs = Inr (False, rs\<lparr>pos := Suc (pos rs)\<rparr>))"
proof (intro conjI impI)
  assume "get_curr_transaction_prob astimezone M self = Inr p"
  then show "decide_making_transaction astimezone M self rs =
        Inr (p > tape rs (pos rs), rs\<lparr>pos := Suc (pos rs)\<rparr>)"
    by (rule decide_making_transaction_Inr)
next
  assume h: "getitem (trans_prob_month self) (month (get_local_datetime astimezone M self) - 1) = Inr 0 \<and>
    getitem (trans_prob_hour self) (hour (get_local_datetime astimezone M self)) = Inr 0 \<and>
    getitem (trans_prob_monthday self) (day (get_local_datetime astimezone M self) - 1) = Inr 0 \<and>
    getitem (trans_prob_weekday self) (weekday (get_local_datetime astimezone M self)) = Inr 0 \<and>
    0 \<le> tape rs (pos rs)"
  then have "get_curr_transaction_prob astimezone M self = Inr 0"
    by (simp add: get_curr_transaction_prob_zero)
  from decide_making_transaction_Inr[OF this, of rs] h
  show "decide_making_transaction astimezone M self rs = Inr (False, rs\<lparr>pos := Suc (pos rs)\<rparr>)"
    by (simp add: not_less)
qed

theorem decide_making_transaction_iff_witness:
  "decide_making_transaction ex_astimezone ex_model ex_customer (const_rs (1 / 2))
     = Inr (True, (const_rs (1 / 2))\<lparr>pos := 1\<rparr>) \<and>
   decide_making_transaction ex_astimezone ex_model idle_customer (const_rs 0)
     = Inr (False, (const_rs 0)\<lparr>pos := 1\<rparr>)"
proof
  show "decide_making_transaction ex_astimezone ex_model ex_customer (const_rs (1 / 2))
     = Inr (True, (const_rs (1 / 2))\<lparr>pos := 1\<rparr>)"
    using decide_making_transaction_iff
            [of ex_astimezone ex_model ex_customer "61 / 62" "const_rs (1 / 2)"]
          ex_customer_prob
    by (simp add: const_rs_def)
  show "decide_making_transaction ex_astimezone ex_model idle_customer (const_rs 0)
     = Inr (False, (const_rs 0)\<lparr>pos := 1\<rparr>)"
    using decide_making_transaction_iff
            [of ex_astimezone ex_model idle_customer 0 "const_rs 0"]
    by (simp add: const_rs_def getitem_def get_local_datetime_def
          ex_astimezone_def ex_model_def ex_customer_def idle_customer_def new_year_def)
qed


subsection \<open>The fraudster's card: fallback\<close>




subsection \<open>Merchant selection\<close>

text \<open>
  C7. Let the currency of the agent have a row in the merchant table of its class, and let
  the weighted choice over that row sample the merchant id \<open>merchant_ID\<close>. If some
  merchant of the registry has that unique id, \<open>pick_curr_merchant\<close> returns a merchant
  of the registry with that id (the first one); if none has, it fails with IndexError,
  which is handed to the caller. When one merchant of the row has probability 1 and all
  others 0, and the registry lists that merchant, it is returned for every variate of the
  unit interval.
\<close>

theorem pick_curr_merchant_lookup:
  "(p_merchant_per_currency P (fraudster self) (currency self) = Some merchant_prob \<and>
    choice_p (map fst merchant_prob) (map snd merchant_prob) rs = Inr (merchant_ID, rs') \<longrightarrow>
      ((\<exists>m \<in> set (merchants M). m_unique_id m = merchant_ID) \<longrightarrow>
         (\<exists>m. pick_curr_merchant P M self rs = (Inr m, rs') \<and> m \<in> set (merchants M) \<and>
              m_unique_id m = merchant_ID \<and>
              find (\<lambda>m. m_unique_id m = merchant_ID) (merchants M) = Some m)) \<and>
      ((\<forall>m \<in> set (merchants M). m_unique_id m \<noteq> merchant_ID) \<longrightarrow>
         pick_curr_merchant P M self rs = (Inl IndexError, rs')))
   \<and>
   (p_merchant_per_currency P (fraudster self) (currency self) = Some merchant_prob \<and>
    k < length merchant_prob \<and>
    (\<forall>i<length merchant_prob. snd (merchant_prob ! i) = (if i = k then 1 else 0)) \<and>
    0 \<le> tape rs (pos rs) \<and> tape rs (pos rs) < 1 \<and>
    (\<exists>m \<in> set (merchants M). m_unique_id m = fst (merchant_prob ! k)) \<longrightarrow>
      (\<exists>m. pick_curr_merchant P M self rs = (Inr m, rs\<lparr>pos := Suc (pos rs)\<rparr>) \<and>
           m \<in> set (merchants M) \<and> m_unique_id m = fst (merchant_prob ! k) \<and>
           find (\<lambda>m. m_unique_id m = fst (merchant_prob ! k)) (merchants M) = Some m))"
proof (intro conjI impI)
  assume h: "p_merchant_per_currency P (fraudster self) (currency self) = Some merchant_prob \<and>
    choice_p (map fst merchant_prob) (map snd merchant_prob) rs = Inr (merchant_ID, rs')"
  {
    assume "\<exists>m \<in> set (merchants M). m_unique_id m = merchant_ID"
    with h show "\<exists>m. pick_curr_merchant P M self rs = (Inr m, rs') \<and> m \<in> set (merchants M) \<and>
              m_unique_id m = merchant_ID \<and>
              find (\<lambda>m. m_unique_id m = merchant_ID) (merchants M) = Some m"
      using pick_curr_merchant_found[of P self merchant_prob rs merchant_ID rs' M] by blast
  }
  {
    assume "\<forall>m \<in> set (merchants M). m_unique_id m \<noteq> merchant_ID"
    with h show "pick_curr_merchant P M self rs = (Inl IndexError, rs')"
      using pick_curr_merchant_missing[of P self merchant_prob rs merchant_ID rs' M] by blast
  }
next
  assume h: "p_merchant_per_currency P (fraudster self) (currency self) = Some merchant_prob \<and>
    k < length merchant_prob \<and>
    (\<forall>i<length merchant_prob. snd (merchant_prob ! i) = (if i = k then 1 else 0)) \<and>
    0 \<le> tape rs (pos rs) \<and> tape rs (pos rs) < 1 \<and>
    (\<exists>m \<in> set (merchants M). m_unique_id m = fst (merchant_prob ! k))"
  then have "choice_p (map fst merchant_prob) (map snd merchant_prob) rs
      = Inr (map fst merchant_prob ! k, rs\<lparr>pos := Suc (pos rs)\<rparr>)"
    by (intro one_hot_choice_p) simp_all
  with h have "choice_p (map fst merchant_prob) (map snd merchant_prob) rs
      = Inr (fst (merchant_prob ! k), rs\<lparr>pos := Suc (pos rs)\<rparr>)"
    by simp
  with h show "\<exists>m. pick_curr_merchant P M self rs = (Inr m, rs\<lparr>pos := Suc (pos rs)\<rparr>) \<and>
           m \<in> set (merchants M) \<and> m_unique_id m = fst (merchant_prob ! k) \<and>
           find (\<lambda>m. m_unique_id m = fst (merchant_prob ! k)) (merchants M) = Some m"
    using pick_curr_merchant_found[of P self merchant_prob rs "fst (merchant_prob ! k)"
            "rs\<lparr>pos := Suc (pos rs)\<rparr>" M] by blast
qed

theorem pick_curr_merchant_lookup_witness:
  "pick_curr_merchant ex_params ex_model ex_customer (const_rs (1 / 3))
     = (Inr \<lparr>m_unique_id = 1\<rparr>, (const_rs (1 / 3))\<lparr>pos := 1\<rparr>) \<and>
   pick_curr_merchant ex_params unlisted_model ex_customer (const_rs (1 / 3))
     = (Inl IndexError, (const_rs (1 / 3))\<lparr>pos := 1\<rparr>)"
proof
  have row: "p_merchant_per_currency ex_params (fraudster ex_customer) (currency ex_customer)
     = Some [(0, 0), (1, 1), (2, 0)]"
    by (simp add: ex_params_def ex_customer_def)
  have oh: "\<forall>i<length [(0::nat, 0::real), (1, 1), (2, 0)].
              snd ([(0::nat, 0::real), (1, 1), (2, 0)] ! i) = (if i = 1 then 1 else 0)"
    by (auto simp: less_Suc_eq numeral_3_eq_3)
  show "pick_curr_merchant ex_params ex_model ex_customer (const_rs (1 / 3))
     = (Inr \<lparr>m_unique_id = 1\<rparr>, (const_rs (1 / 3))\<lparr>pos := 1\<rparr>)"
    using pick_curr_merchant_lookup
            [of ex_params ex_customer "[(0, 0), (1, 1), (2, 0)]" "const_rs (1 / 3)" _ _
                ex_model 1] row oh
    by (auto simp: ex_model_def const_rs_def)
  show "pick_curr_merchant ex_params unlisted_model ex_customer (const_rs (1 / 3))
     = (Inl IndexError, (const_rs (1 / 3))\<lparr>pos := 1\<rparr>)"
    using pick_curr_merchant_lookup
            [of ex_params ex_customer "[(0, 0), (1, 1), (2, 0)]" "const_rs (1 / 3)" 1
                "(const_rs (1 / 3))\<lparr>pos := 1\<rparr>" unlisted_model] row ex_choice_p
    by (simp add: unlisted_model_def)
qed


subsection \<open>Perturbation of the yearly rate\<close>

text \<open>
  C8, as amended. Let \<open>a\<close> be the Gaussian addition that the constructor draws, the
  standard normal variate scaled by \<open>noise_level\<close> times the yearly rate \<open>b > 0\<close>
  of the class. The perturbed yearly rate is \<open>b + a\<close> when \<open>b + a\<close> is strictly
  positive and \<open>b\<close> otherwise; \<open>avg_trans_per_hour\<close> is that rate divided by 366 and
  by 24 and multiplied by the motivation factor of the class. (The specification keeps
  \<open>b + a\<close> also when it is exactly zero; the code keeps \<open>b\<close> then.)
\<close>

theorem init_rate_perturbation:
  "normal 0 (p_noise_level P * p_trans_per_year P (fraudster self)) rs = Inr (a, rs1) \<Longrightarrow>
   0 < p_trans_per_year P (fraudster self) \<Longrightarrow>
   length (p_frac_month P (fraudster self)) = 12 \<Longrightarrow>
   length (p_frac_monthday P (fraudster self)) = 31 \<Longrightarrow>
   length (p_frac_weekday P (fraudster self)) = 7 \<Longrightarrow>
   length (p_frac_hour P (fraudster self)) = 24 \<Longrightarrow>
   a = p_noise_level P * p_trans_per_year P (fraudster self) * tape rs (pos rs) \<and>
   (\<exists>self' rs'. UniMausCustomer_init P self rs = Inr (self', rs') \<and>
      avg_trans_per_hour self' =
        (if p_trans_per_year P (fraudster self) + a > 0
         then p_trans_per_year P (fraudster self) + a
         else p_trans_per_year P (fraudster self)) / 366 / 24
          * p_transaction_motivation P (fraudster self))"
proof
  assume n: "normal 0 (p_noise_level P * p_trans_per_year P (fraudster self)) rs = Inr (a, rs1)"
  then show "a = p_noise_level P * p_trans_per_year P (fraudster self) * tape rs (pos rs)"
    by (auto simp: normal_def random_sample_def split: if_splits)
  assume "length (p_frac_month P (fraudster self)) = 12"
    "length (p_frac_monthday P (fraudster self)) = 31"
    "length (p_frac_weekday P (fraudster self)) = 7"
    "length (p_frac_hour P (fraudster self)) = 24"
  then show "\<exists>self' rs'. UniMausCustomer_init P self rs = Inr (self', rs') \<and>
      avg_trans_per_hour self' =
        (if p_trans_per_year P (fraudster self) + a > 0
         then p_trans_per_year P (fraudster self) + a
         else p_trans_per_year P (fraudster self)) / 366 / 24
          * p_transaction_motivation P (fraudster self)"
    by (rule init_total[OF n])
qed

theorem init_rate_perturbation_witness:
  "\<exists>self' rs'. UniMausCustomer_init ex_params ex_customer (const_rs 2) = Inr (self', rs') \<and>
      avg_trans_per_hour self' = 3 / 8784"
  using init_rate_perturbation[OF ex_normal[of 2] _ ex_params_lengths]
  by (auto simp: ex_params_def)

text \<open>
  The specification's wording fails where the addition cancels the rate exactly: with a rate of
  1 and an addition of \<open>-1\<close> the sum is zero, which is not negative, yet the code keeps
  the rate 1 and the hourly average is \<open>1/8784\<close>, not zero.
\<close>

theorem init_rate_zero_counterexample:
  "normal 0 (p_noise_level ex_params * p_trans_per_year ex_params (fraudster ex_customer))
     (const_rs (- 1)) = Inr (- 1, (const_rs (- 1))\<lparr>pos := 1\<rparr>) \<and>
   p_trans_per_year ex_params (fraudster ex_customer) + (- 1) = 0 \<and>
   map_sum id (avg_trans_per_hour \<circ> fst)
     (UniMausCustomer_init ex_params ex_customer (const_rs (- 1))) = Inr (1 / 8784) \<and>
   spec_perturbed_rate (p_trans_per_year ex_params (fraudster ex_customer)) (- 1) / 366 / 24
     * p_transaction_motivation ex_params (fraudster ex_customer) = 0"
proof -
  obtain self' rs' where
    "UniMausCustomer_init ex_params ex_customer (const_rs (- 1)) = Inr (self', rs')"
    "avg_trans_per_hour self' = 1 / 8784"
    using init_total[OF ex_normal[of "- 1"] ex_params_lengths]
    by (auto simp: ex_params_def)
  then show ?thesis
    using ex_normal[of "- 1"] by (simp add: ex_params_def spec_perturbed_rate_def)
qed


subsection \<open>The fraudster's card: the victim\<close>

text \<open>
  C9, as amended. When the fraudster's \<open>initialise_card_id\<close> takes the victim branch
  and the list of targets is not empty, the card, the country and the currency it adopts
  are those of a member of \<open>model.customers\<close> whose country is a fraud country, whose
  currency is a fraud currency and whose unique id is among the ids of the customers with
  at least one transaction. The method does not look at the member's fraud flag: the
  victim is genuine when \<open>model.customers\<close> holds genuine agents only.
\<close>

theorem fraud_initialise_card_id_victim:
  assumes "fraud_initialise_card_id get_next_card_id P M self rs = Inr (card', self', M', rs')"
    and "p_fraud_cards_in_genuine P > tape rs (pos rs)"
    and "filter (fraud_target P M) (customers M) \<noteq> []"
  shows "\<exists>victim \<in> set (customers M).
           fraud_target P M victim \<and>
           card' = card_id victim \<and>
           self' = self\<lparr>country := country victim, currency := currency victim\<rparr> \<and>
           M' = M \<and> rs' = rs\<lparr>pos := pos rs + 2\<rparr> \<and>
           ((\<forall>c \<in> set (customers M). \<not> fraudster c) \<longrightarrow> \<not> fraudster victim)"
proof -
  obtain x where x: "x \<in> set (filter (fraud_target P M) (customers M))"
    "choice (filter (fraud_target P M) (customers M)) (rs\<lparr>pos := Suc (pos rs)\<rparr>)
       = Inr (x, rs\<lparr>pos := Suc (Suc (pos rs))\<rparr>)"
    using choice_Inr[OF assms(3), of "rs\<lparr>pos := Suc (pos rs)\<rparr>"] by auto
  from assms(1,2) x(2) have "card' = card_id x"
    "self' = self\<lparr>country := country x, currency := currency x\<rparr>" "M' = M"
    "rs' = rs\<lparr>pos := pos rs + 2\<rparr>"
    by (simp_all add: fraud_initialise_card_id_def uniform_0_1)
  with x(1) show ?thesis by auto
qed

theorem fraud_initialise_card_id_victim_witness:
  "fraud_initialise_card_id ex_get_next_card_id ex_params genuine_model ex_fraudster
      (const_rs 0)
     = Inr (42, ex_fraudster\<lparr>country := ''US'', currency := ''USD''\<rparr>, genuine_model,
            (const_rs 0)\<lparr>pos := 2\<rparr>) \<and>
   (\<exists>victim \<in> set (customers genuine_model).
      fraud_target ex_params genuine_model victim \<and> card_id victim = 42 \<and>
      \<not> fraudster victim)"
proof -
  have r: "fraud_initialise_card_id ex_get_next_card_id ex_params genuine_model ex_fraudster
      (const_rs 0)
     = Inr (42, ex_fraudster\<lparr>country := ''US'', currency := ''USD''\<rparr>, genuine_model,
            (const_rs 0)\<lparr>pos := 2\<rparr>)"
    by (simp add: fraud_initialise_card_id_def uniform_0_1 choice_def random_sample_def
          fraud_target_def fraudster_countries_def fraudster_currencies_def
          customers_active_ids_def genuine_model_def active_genuine_def ex_customer_def
          ex_params_def const_rs_def)
  have "p_fraud_cards_in_genuine ex_params > tape (const_rs 0) (pos (const_rs 0))"
    by (simp add: ex_params_def const_rs_def)
  moreover have
    "filter (fraud_target ex_params genuine_model) (customers genuine_model) \<noteq> []"
    by (simp add: fraud_target_def fraudster_countries_def fraudster_currencies_def
          customers_active_ids_def genuine_model_def active_genuine_def ex_customer_def
          ex_params_def)
  moreover have "\<forall>c \<in> set (customers genuine_model). \<not> fraudster c"
    by (simp add: genuine_model_def active_genuine_def ex_customer_def)
  ultimately show ?thesis
    using fraud_initialise_card_id_victim[OF r] r by auto
qed

text \<open>
  Stated for every population, the property fails on a population that holds a
  fraudster: the only customer of \<open>fraud_model\<close> is an active fraudster in a fraud
  country with a fraud currency, and its card 99 is the one adopted.
\<close>

theorem fraud_victim_fraudster_counterexample:
  "fraud_initialise_card_id ex_get_next_card_id ex_params fraud_model ex_fraudster (const_rs 0)
     = Inr (99, ex_fraudster\<lparr>country := ''US'', currency := ''USD''\<rparr>, fraud_model,
            (const_rs 0)\<lparr>pos := 2\<rparr>) \<and>
   customers fraud_model = [active_fraudster] \<and>
   card_id active_fraudster = 99 \<and>
   fraudster active_fraudster \<and>
   fst (ex_get_next_card_id fraud_model) \<noteq> 99"
  by (simp add: fraud_initialise_card_id_def uniform_0_1 choice_def random_sample_def
        fraud_target_def fraudster_countries_def fraudster_currencies_def
        customers_active_ids_def fraud_model_def active_fraudster_def ex_customer_def
        ex_params_def const_rs_def ex_get_next_card_id_def ex_model_def)


subsection \<open>Frame of perform\_transaction\<close>

text \<open>
  C10. If the merchant's \<open>get_amount\<close> returns the agent as it received it,
  \<open>perform_transaction\<close> changes no field of the agent other than
  \<open>curr_merchant\<close> and \<open>curr_amount\<close>: \<open>num_transactions\<close>, \<open>stay\<close>,
  \<open>card_corrupted\<close>, \<open>card_id\<close>, \<open>country\<close> and \<open>currency\<close> are as before.
  When the merchant lookup fails the agent is not changed at all; when the call succeeds
  the two fields hold the merchant picked and the amount that merchant computed.
\<close>

theorem perform_transaction_frame:
  assumes "\<forall>m a r. fst (snd (get_amount m a r)) = a"
  shows "\<exists>res self' rs'.
     perform_transaction get_amount P M self rs = (res, self', rs') \<and>
     self' = self\<lparr>curr_merchant := curr_merchant self', curr_amount := curr_amount self'\<rparr> \<and>
     num_transactions self' = num_transactions self \<and> stay self' = stay self \<and>
     card_corrupted self' = card_corrupted self \<and> card_id self' = card_id self \<and>
     country self' = country self \<and> currency self' = currency self \<and>
     (\<forall>e. res = Inl e \<longrightarrow> self' = self) \<and>
     (res = Inr () \<longrightarrow>
        (\<exists>m rs1. pick_curr_merchant P M self rs = (Inr m, rs1) \<and>
           curr_merchant self' = Some m \<and>
           curr_amount self' = Some (fst (get_amount m (self\<lparr>curr_merchant := Some m\<rparr>) rs1))))"
proof (cases "pick_curr_merchant P M self rs")
  case (Pair r rs1)
  show ?thesis
  proof (cases r)
    case (Inl e)
    with Pair show ?thesis by (simp add: perform_transaction_def)
  next
    case (Inr m)
    obtain amount self2 rs2 where
      g: "get_amount m (self\<lparr>curr_merchant := Some m\<rparr>) rs1 = (amount, self2, rs2)"
      by (cases "get_amount m (self\<lparr>curr_merchant := Some m\<rparr>) rs1") auto
    with assms have "self2 = self\<lparr>curr_merchant := Some m\<rparr>"
      by (metis fst_conv snd_conv)
    with Pair Inr g show ?thesis
      by (simp add: perform_transaction_def pick_curr_amount_def)
  qed
qed

theorem perform_transaction_frame_witness:
  "\<exists>self' rs'.
     perform_transaction ex_get_amount ex_params ex_model ex_customer (const_rs (1 / 3))
       = (Inr (), self', rs') \<and>
     self' = ex_customer\<lparr>curr_merchant := curr_merchant self', curr_amount := curr_amount self'\<rparr> \<and>
     num_transactions self' = 0 \<and> stay self'"
proof -
  have "\<forall>m a r. fst (snd (ex_get_amount m a r)) = a"
    by (simp add: ex_get_amount_def)
  from perform_transaction_frame[OF this, of ex_params ex_model ex_customer "const_rs (1 / 3)"]
  obtain res self' rs' where
    r: "perform_transaction ex_get_amount ex_params ex_model ex_customer (const_rs (1 / 3))
       = (res, self', rs')"
    and f: "self' = ex_customer\<lparr>curr_merchant := curr_merchant self', curr_amount := curr_amount self'\<rparr>"
      "num_transactions self' = num_transactions ex_customer" "stay self' = stay ex_customer"
    by blast
  have "perform_transaction ex_get_amount ex_params ex_model ex_customer (const_rs (1 / 3))
       = (Inr (), ex_customer\<lparr>curr_merchant := Some \<lparr>m_unique_id = 1\<rparr>, curr_amount := Some 10\<rparr>,
          (const_rs (1 / 3))\<lparr>pos := 1\<rparr>)"
    by (simp add: perform_transaction_def pick_curr_amount_def pick_curr_merchant_def
          ex_get_amount_def ex_params_def ex_customer_def ex_model_def
          choice_p_def random_sample_def cumsum_def searchsorted_right_def const_rs_def)
  with r have "res = Inr ()" by simp
  with r f show ?thesis by (simp add: ex_customer_def)
qed


end
